theory Spec2Isabelle
  imports Complex_Main "HOL-Library.Multiset"
begin

section \<open>The planetary simulation of \<open>planets.py\<close>\<close>

text \<open>
  The module defines a sun, planets, a solar system that advances the planets under the
  sun's gravity, and a simulation that runs the solar system and prints the planets.

  Numbers: Python's floats are modelled by the reals, so every arithmetic operation is
  exact; rounding, overflow, infinities and NaN are not part of the model. What the
  interpreter raises is part of the model: a float division by zero raises
  \<open>ZeroDivisionError\<close>, and the attribute access on \<open>None\<close> raises \<open>AttributeError\<close>.

  Objects: a \<open>Planet\<close> is a mutable object and the solar system's list holds references to
  planets, so the same planet can be listed twice. The planets live in a store, a function
  from references to planet objects, and the list \<open>planets\<close> holds references.

  A method that can raise returns a pair: \<open>Inl e\<close> when the exception \<open>e\<close> was raised and
  \<open>Inr ()\<close> when the method returned, together with the state as it is at that moment.
\<close>

datatype py_error = AttributeError | ZeroDivisionError | OverflowError | ValueError

subsection \<open>Universe\<close>

definition G :: real where
  "G = 6.67430 / 10 ^ 11"

subsection \<open>Sun\<close>

record Sun =
  sun_name :: string
  sun_mass :: real
  sun_radius :: real
  sun_temperature :: real
  sun_x_pos :: real
  sun_y_pos :: real

definition Sun_init :: "string \<Rightarrow> real \<Rightarrow> real \<Rightarrow> real \<Rightarrow> Sun" where
  "Sun_init name mass radius temperature =
     \<lparr> sun_name = name, sun_mass = mass, sun_radius = radius,
       sun_temperature = temperature, sun_x_pos = 0, sun_y_pos = 0 \<rparr>"

definition Sun_get_mass :: "Sun \<Rightarrow> real" where
  "Sun_get_mass sun = sun_mass sun"

definition Sun_get_x_pos :: "Sun \<Rightarrow> real" where
  "Sun_get_x_pos sun = sun_x_pos sun"

definition Sun_get_y_pos :: "Sun \<Rightarrow> real" where
  "Sun_get_y_pos sun = sun_y_pos sun"

definition set_position :: "Sun \<Rightarrow> real \<Rightarrow> real \<Rightarrow> Sun" where
  "set_position sun x y = sun\<lparr> sun_x_pos := x, sun_y_pos := y \<rparr>"

subsection \<open>Planet\<close>

record Planet =
  planet_name :: string
  planet_mass :: real
  planet_radius :: real
  planet_color :: string
  planet_x_pos :: real
  planet_y_pos :: real
  planet_x_vel :: real
  planet_y_vel :: real

definition Planet_init ::
  "string \<Rightarrow> real \<Rightarrow> real \<Rightarrow> real \<Rightarrow> real \<Rightarrow> real \<Rightarrow> string \<Rightarrow> Planet" where
  "Planet_init name initial_velocity mass radius x_pos y_pos color =
     \<lparr> planet_name = name, planet_mass = mass, planet_radius = radius,
       planet_color = color, planet_x_pos = x_pos, planet_y_pos = y_pos,
       planet_x_vel = 0, planet_y_vel = initial_velocity \<rparr>"

definition get_mass :: "Planet \<Rightarrow> real" where
  "get_mass planet = planet_mass planet"

definition get_x_pos :: "Planet \<Rightarrow> real" where
  "get_x_pos planet = planet_x_pos planet"

definition get_y_pos :: "Planet \<Rightarrow> real" where
  "get_y_pos planet = planet_y_pos planet"

definition get_x_vel :: "Planet \<Rightarrow> real" where
  "get_x_vel planet = planet_x_vel planet"

definition get_y_vel :: "Planet \<Rightarrow> real" where
  "get_y_vel planet = planet_y_vel planet"

definition set_x_vel :: "Planet \<Rightarrow> real \<Rightarrow> Planet" where
  "set_x_vel planet velocity = planet\<lparr> planet_x_vel := velocity \<rparr>"

definition set_y_vel :: "Planet \<Rightarrow> real \<Rightarrow> Planet" where
  "set_y_vel planet velocity = planet\<lparr> planet_y_vel := velocity \<rparr>"

definition move_to :: "Planet \<Rightarrow> real \<Rightarrow> real \<Rightarrow> Planet" where
  "move_to planet x y = planet\<lparr> planet_x_pos := x, planet_y_pos := y \<rparr>"

text \<open>
  \<open>distance_from_sun\<close> reads the planet's position, then calls \<open>sun.get_x_pos()\<close>: with
  \<open>None\<close> for the sun that call raises.
\<close>

definition distance_from_sun :: "Planet \<Rightarrow> Sun option \<Rightarrow> py_error + real" where
  "distance_from_sun planet sun_opt =
     (case sun_opt of
        None \<Rightarrow> Inl AttributeError
      | Some sun \<Rightarrow>
          (let dx = planet_x_pos planet - Sun_get_x_pos sun;
               dy = planet_y_pos planet - Sun_get_y_pos sun
           in Inr (sqrt (dx ^ 2 + dy ^ 2))))"

subsection \<open>SolarSystem\<close>

type_synonym ref = nat

record SolarSystem =
  the_sun :: "Sun option"
  planets :: "ref list"
  heap :: "ref \<Rightarrow> Planet"

text \<open>
  \<open>the_sun\<close> and \<open>planets\<close> are the two attributes of the object; \<open>heap\<close> is the store of
  the planet objects that the references in \<open>planets\<close> point to. The constructor leaves
  the store as it finds it.
\<close>

definition SolarSystem_init :: "(ref \<Rightarrow> Planet) \<Rightarrow> SolarSystem" where
  "SolarSystem_init h = \<lparr> the_sun = None, planets = [], heap = h \<rparr>"

definition add_sun :: "SolarSystem \<Rightarrow> Sun \<Rightarrow> SolarSystem" where
  "add_sun s sun = s\<lparr> the_sun := Some sun \<rparr>"

definition add_planet :: "SolarSystem \<Rightarrow> ref \<Rightarrow> SolarSystem" where
  "add_planet s planet = s\<lparr> planets := planets s @ [planet] \<rparr>"

definition dt :: real where
  "dt = 0.001"

text \<open>
  The body of the loop of \<open>move_planets\<close>, on the planet object it is run for. The planet
  is moved first; the sun is looked at only then, so with no sun the exception comes after
  the move. The two divisions have the same divisor \<open>new_distance ** 3\<close>, and the first one
  raises when it is zero, before any velocity is set.
\<close>

definition move_planet :: "Sun option \<Rightarrow> Planet \<Rightarrow> (py_error + unit) \<times> Planet" where
  "move_planet sun_opt planet =
     (let planet1 = move_to planet
            (get_x_pos planet + dt * get_x_vel planet)
            (get_y_pos planet + dt * get_y_vel planet)
      in case sun_opt of
           None \<Rightarrow> (Inl AttributeError, planet1)
         | Some sun \<Rightarrow>
             (let dist_x = Sun_get_x_pos sun - get_x_pos planet1;
                  dist_y = Sun_get_y_pos sun - get_y_pos planet1;
                  new_distance = sqrt (dist_x ^ 2 + dist_y ^ 2)
              in if new_distance ^ 3 = 0 then (Inl ZeroDivisionError, planet1)
                 else
                   (let acc_x = G * Sun_get_mass sun * dist_x / new_distance ^ 3;
                        acc_y = G * Sun_get_mass sun * dist_y / new_distance ^ 3;
                        planet2 = set_x_vel planet1 (get_x_vel planet1 + dt * acc_x);
                        planet3 = set_y_vel planet2 (get_y_vel planet2 + dt * acc_y)
                    in (Inr (), planet3))))"

text \<open>
  The loop over \<open>self.planets\<close>: each reference in turn, the object it points to updated
  in the store; an exception ends the loop and leaves the store as it is then.
\<close>

fun move_planets_loop :: "ref list \<Rightarrow> SolarSystem \<Rightarrow> (py_error + unit) \<times> SolarSystem" where
  "move_planets_loop [] s = (Inr (), s)"
| "move_planets_loop (r # rs) s =
     (case move_planet (the_sun s) (heap s r) of
        (Inl e, planet') \<Rightarrow> (Inl e, s\<lparr> heap := (heap s)(r := planet') \<rparr>)
      | (Inr u, planet') \<Rightarrow> move_planets_loop rs (s\<lparr> heap := (heap s)(r := planet') \<rparr>))"

definition move_planets :: "SolarSystem \<Rightarrow> (py_error + unit) \<times> SolarSystem" where
  "move_planets s = move_planets_loop (planets s) s"

subsection \<open>Simulation\<close>

record Simulation =
  solar_system :: SolarSystem
  width :: real
  height :: real
  iterations :: int

definition Simulation_init :: "SolarSystem \<Rightarrow> real \<Rightarrow> real \<Rightarrow> int \<Rightarrow> Simulation" where
  "Simulation_init s w h n = \<lparr> solar_system = s, width = w, height = h, iterations = n \<rparr>"

text \<open>
  The format specification \<open>.2f\<close> of the f-string: the value rounded to two decimals,
  a tie going to the even neighbour, printed with its sign, at least one digit before the
  point and two after it.
\<close>

definition round_half_even :: "real \<Rightarrow> int" where
  "round_half_even y =
     (let f = \<lfloor>y\<rfloor>; d = y - of_int f
      in if d < 1 / 2 then f else if 1 / 2 < d then f + 1
         else if even f then f else f + 1)"

definition digit :: "nat \<Rightarrow> char" where
  "digit n = ''0123456789'' ! (n mod 10)"

fun string_of_nat :: "nat \<Rightarrow> string" where
  "string_of_nat n =
     (if n < 10 then [digit n] else string_of_nat (n div 10) @ [digit n])"

declare string_of_nat.simps [simp del]

definition fmt_2f :: "real \<Rightarrow> string" where
  "fmt_2f x =
     (let k = nat (round_half_even (\<bar>x\<bar> * 100))
      in (if x < 0 then ''-'' else '''') @ string_of_nat (k div 100) @ ''.''
           @ [digit (k div 10), digit k])"

text \<open>The line printed for one planet; the distance is computed last and may raise.\<close>

definition report_line :: "Sun option \<Rightarrow> Planet \<Rightarrow> py_error + string" where
  "report_line sun_opt planet =
     (case distance_from_sun planet sun_opt of
        Inl e \<Rightarrow> Inl e
      | Inr d \<Rightarrow>
          Inr (planet_name planet @ '': x='' @ fmt_2f (get_x_pos planet)
               @ '', y='' @ fmt_2f (get_y_pos planet)
               @ '', distance='' @ fmt_2f d))"

text \<open>The inner loop of \<open>run\<close>: standard output is the list of the lines printed so far.\<close>

fun print_planets ::
  "SolarSystem \<Rightarrow> ref list \<Rightarrow> string list \<Rightarrow> (py_error + unit) \<times> string list" where
  "print_planets s [] out = (Inr (), out)"
| "print_planets s (r # rs) out =
     (case report_line (the_sun s) (heap s r) of
        Inl e \<Rightarrow> (Inl e, out)
      | Inr line \<Rightarrow> print_planets s rs (out @ [line]))"

text \<open>The outer loop of \<open>run\<close>, over \<open>range(self.iterations)\<close>.\<close>

fun run_loop ::
  "nat \<Rightarrow> SolarSystem \<Rightarrow> string list \<Rightarrow> (py_error + unit) \<times> SolarSystem \<times> string list" where
  "run_loop 0 s out = (Inr (), s, out)"
| "run_loop (Suc n) s out =
     (case move_planets s of
        (Inl e, s') \<Rightarrow> (Inl e, s', out)
      | (Inr u, s') \<Rightarrow>
          (case print_planets s' (planets s') out of
             (Inl e, out') \<Rightarrow> (Inl e, s', out')
           | (Inr u', out') \<Rightarrow> run_loop n s' out'))"

text \<open>
  \<open>range(n)\<close> is empty for a negative \<open>n\<close>, so the loop runs \<open>nat n\<close> times. The simulation
  refers to its solar system, which \<open>run\<close> changes: the result holds the simulation with
  the solar system as it is at the end.
\<close>

definition run :: "Simulation \<Rightarrow> string list \<Rightarrow> (py_error + unit) \<times> Simulation \<times> string list" where
  "run sim out =
     (case run_loop (nat (iterations sim)) (solar_system sim) out of
        (res, s', out') \<Rightarrow> (res, sim\<lparr> solar_system := s' \<rparr>, out'))"

subsection \<open>The solar system of the main block\<close>

text \<open>
  The module's main block builds a sun, two planets and a solar system holding both. The
  planet objects are placed at the references 0 and 1.
\<close>

definition sol :: Sun where
  "sol = Sun_init ''SOL'' 5000 10000000 5800"

definition earth :: Planet where
  "earth = Planet_init ''EARTH'' 47.5 1 25 5.0 200.0 ''green''"

definition mars :: Planet where
  "mars = Planet_init ''MARS'' 40.5 0.1 62 10.0 125.0 ''red''"

definition main_heap :: "ref \<Rightarrow> Planet" where
  "main_heap = (\<lambda>r. earth)(1 := mars)"

definition main_system :: SolarSystem where
  "main_system = add_planet (add_planet (add_sun (SolarSystem_init main_heap) sol) 0) 1"

text \<open>Further systems built with the same constructors, used as concrete inputs below.\<close>

definition rest :: Planet where
  "rest = Planet_init ''REST'' 0 1 1 0 0 ''grey''"

definition sunless_system :: SolarSystem where
  "sunless_system = add_planet (SolarSystem_init main_heap) 0"

definition collision_system :: SolarSystem where
  "collision_system =
     add_planet (add_planet (add_sun (SolarSystem_init ((\<lambda>r. earth)(0 := rest))) sol) 0) 1"

definition twice_system :: SolarSystem where
  "twice_system = add_planet (add_planet (add_sun (SolarSystem_init main_heap) sol) 0) 0"

definition heavy_heap :: "ref \<Rightarrow> Planet" where
  "heavy_heap = (\<lambda>r. Planet_init ''EARTH'' 47.5 1000 25 5.0 200.0 ''green'')
                  (1 := Planet_init ''MARS'' 40.5 2000 62 10.0 125.0 ''red'')"

definition heavy_system :: SolarSystem where
  "heavy_system = add_planet (add_planet (add_sun (SolarSystem_init heavy_heap) sol) 0) 1"

definition twin_system :: SolarSystem where
  "twin_system =
     add_planet (add_planet (add_sun (SolarSystem_init
       ((\<lambda>r. earth)(1 := Planet_init ''TWIN'' 47.5 1000 25 5.0 200.0 ''blue''))) sol) 0) 1"

definition pythagoras :: Planet where
  "pythagoras = Planet_init ''P'' 0 1 1 3 4 ''blue''"

definition small_system :: SolarSystem where
  "small_system = add_planet (add_sun (SolarSystem_init (\<lambda>r. pythagoras)) sol) 0"

definition small_simulation :: Simulation where
  "small_simulation = Simulation_init small_system 500 500 1"

definition collision_simulation :: Simulation where
  "collision_simulation = Simulation_init collision_system 500 500 3"

definition main_simulation :: Simulation where
  "main_simulation = Simulation_init main_system 500 500 2000"

definition other_simulation :: Simulation where
  "other_simulation = Simulation_init
     (add_planet (add_planet (add_sun
        (SolarSystem_init ((\<lambda>r. rest)(0 := earth, 1 := mars))) sol) 0) 1)
     800 600 2000"

subsection \<open>Observations\<close>

text \<open>
  The position and velocity of a planet; the planet object after one run of the loop body
  and whether that run returned; the solar system after one call of \<open>move_planets\<close>.
\<close>

definition kinematics :: "Planet \<Rightarrow> real \<times> real \<times> real \<times> real" where
  "kinematics planet =
     (get_x_pos planet, get_y_pos planet, get_x_vel planet, get_y_vel planet)"

definition planet_after :: "Sun option \<Rightarrow> Planet \<Rightarrow> Planet" where
  "planet_after sun_opt planet = snd (move_planet sun_opt planet)"

definition planet_ok :: "Sun option \<Rightarrow> Planet \<Rightarrow> bool" where
  "planet_ok sun_opt planet = (fst (move_planet sun_opt planet) = Inr ())"

definition tick :: "SolarSystem \<Rightarrow> SolarSystem" where
  "tick s = snd (move_planets s)"

section \<open>The same program over floating-point arithmetic\<close>

text \<open>
  Where a property depends on what the arithmetic of the interpreter returns (a distance that
  is zero, an exception, the digits that are printed), the program is modelled a second
  time with the arithmetic as a parameter: the values are of a type \<open>'f\<close>, and a record
  holds the operations the program uses on them. Every number the program holds is taken
  as a float. \<open>fdiv\<close> is the quotient for a divisor that is not zero; the interpreter
  raises \<open>ZeroDivisionError\<close> for one that is. \<open>fpow\<close> is \<open>**\<close> with an integer exponent, which
  can raise \<open>OverflowError\<close>; \<open>fsqrt\<close> is \<open>math.sqrt\<close>, which can raise \<open>ValueError\<close>;
  \<open>fmt\<close> is the format \<open>.2f\<close>. \<open>lit_zero\<close> is the number 0 that the constructors store.
\<close>

record 'f arith =
  lit_zero :: 'f
  lit_dt :: 'f
  lit_G :: 'f
  fadd :: "'f \<Rightarrow> 'f \<Rightarrow> 'f"
  fsub :: "'f \<Rightarrow> 'f \<Rightarrow> 'f"
  fmul :: "'f \<Rightarrow> 'f \<Rightarrow> 'f"
  fdiv :: "'f \<Rightarrow> 'f \<Rightarrow> 'f"
  is_zero :: "'f \<Rightarrow> bool"
  fsqrt :: "'f \<Rightarrow> py_error + 'f"
  fpow :: "'f \<Rightarrow> nat \<Rightarrow> py_error + 'f"
  fmt :: "'f \<Rightarrow> string"

record 'f FSun =
  fsun_name :: string
  fsun_mass :: 'f
  fsun_radius :: 'f
  fsun_temperature :: 'f
  fsun_x_pos :: 'f
  fsun_y_pos :: 'f

record 'f FPlanet =
  fplanet_name :: string
  fplanet_mass :: 'f
  fplanet_radius :: 'f
  fplanet_color :: string
  fplanet_x_pos :: 'f
  fplanet_y_pos :: 'f
  fplanet_x_vel :: 'f
  fplanet_y_vel :: 'f

record 'f FSolarSystem =
  fthe_sun :: "'f FSun option"
  fplanets :: "ref list"
  fheap :: "ref \<Rightarrow> 'f FPlanet"

record 'f FSimulation =
  fsolar_system :: "'f FSolarSystem"
  fwidth :: 'f
  fheight :: 'f
  fiterations :: int

definition FSun_init :: "'f arith \<Rightarrow> string \<Rightarrow> 'f \<Rightarrow> 'f \<Rightarrow> 'f \<Rightarrow> 'f FSun" where
  "FSun_init ar name mass radius temperature =
     \<lparr> fsun_name = name, fsun_mass = mass, fsun_radius = radius,
       fsun_temperature = temperature, fsun_x_pos = lit_zero ar, fsun_y_pos = lit_zero ar \<rparr>"

definition FPlanet_init ::
  "'f arith \<Rightarrow> string \<Rightarrow> 'f \<Rightarrow> 'f \<Rightarrow> 'f \<Rightarrow> 'f \<Rightarrow> 'f \<Rightarrow> string \<Rightarrow> 'f FPlanet" where
  "FPlanet_init ar name initial_velocity mass radius x_pos y_pos color =
     \<lparr> fplanet_name = name, fplanet_mass = mass, fplanet_radius = radius,
       fplanet_color = color, fplanet_x_pos = x_pos, fplanet_y_pos = y_pos,
       fplanet_x_vel = lit_zero ar, fplanet_y_vel = initial_velocity \<rparr>"

definition py_div :: "'f arith \<Rightarrow> 'f \<Rightarrow> 'f \<Rightarrow> py_error + 'f" where
  "py_div ar a b = (if is_zero ar b then Inl ZeroDivisionError else Inr (fdiv ar a b))"

text \<open>\<open>math.sqrt(dist_x ** 2 + dist_y ** 2)\<close>, evaluated from left to right.\<close>

definition new_distance_fp :: "'f arith \<Rightarrow> 'f \<Rightarrow> 'f \<Rightarrow> py_error + 'f" where
  "new_distance_fp ar dist_x dist_y =
     (case fpow ar dist_x 2 of
        Inl e \<Rightarrow> Inl e
      | Inr a \<Rightarrow>
          (case fpow ar dist_y 2 of
             Inl e \<Rightarrow> Inl e
           | Inr b \<Rightarrow> fsqrt ar (fadd ar a b)))"

text \<open>\<open>Universe.G * mass * dist / (new_distance ** 3)\<close>: the product, the power, the division.\<close>

definition acc_fp :: "'f arith \<Rightarrow> 'f \<Rightarrow> 'f \<Rightarrow> 'f \<Rightarrow> py_error + 'f" where
  "acc_fp ar mass dist_c new_distance =
     (let numerator = fmul ar (fmul ar (lit_G ar) mass) dist_c
      in case fpow ar new_distance 3 of
           Inl e \<Rightarrow> Inl e
         | Inr cube \<Rightarrow> py_div ar numerator cube)"

definition moved_fp :: "'f arith \<Rightarrow> 'f FPlanet \<Rightarrow> 'f FPlanet" where
  "moved_fp ar planet =
     planet\<lparr> fplanet_x_pos := fadd ar (fplanet_x_pos planet) (fmul ar (lit_dt ar) (fplanet_x_vel planet)),
             fplanet_y_pos := fadd ar (fplanet_y_pos planet) (fmul ar (lit_dt ar) (fplanet_y_vel planet)) \<rparr>"

definition move_planet_fp ::
  "'f arith \<Rightarrow> 'f FSun option \<Rightarrow> 'f FPlanet \<Rightarrow> (py_error + unit) \<times> 'f FPlanet" where
  "move_planet_fp ar sun_opt planet =
     (let planet1 = moved_fp ar planet
      in case sun_opt of
           None \<Rightarrow> (Inl AttributeError, planet1)
         | Some sun \<Rightarrow>
             (let dist_x = fsub ar (fsun_x_pos sun) (fplanet_x_pos planet1);
                  dist_y = fsub ar (fsun_y_pos sun) (fplanet_y_pos planet1)
              in case new_distance_fp ar dist_x dist_y of
                   Inl e \<Rightarrow> (Inl e, planet1)
                 | Inr new_distance \<Rightarrow>
                     (case acc_fp ar (fsun_mass sun) dist_x new_distance of
                        Inl e \<Rightarrow> (Inl e, planet1)
                      | Inr acc_x \<Rightarrow>
                          (case acc_fp ar (fsun_mass sun) dist_y new_distance of
                             Inl e \<Rightarrow> (Inl e, planet1)
                           | Inr acc_y \<Rightarrow>
                               (Inr (),
                                planet1\<lparr> fplanet_x_vel :=
                                            fadd ar (fplanet_x_vel planet1) (fmul ar (lit_dt ar) acc_x),
                                          fplanet_y_vel :=
                                            fadd ar (fplanet_y_vel planet1) (fmul ar (lit_dt ar) acc_y) \<rparr>)))))"

fun move_planets_loop_fp ::
  "'f arith \<Rightarrow> ref list \<Rightarrow> 'f FSolarSystem \<Rightarrow> (py_error + unit) \<times> 'f FSolarSystem" where
  "move_planets_loop_fp ar [] s = (Inr (), s)"
| "move_planets_loop_fp ar (r # rs) s =
     (case move_planet_fp ar (fthe_sun s) (fheap s r) of
        (Inl e, planet') \<Rightarrow> (Inl e, s\<lparr> fheap := (fheap s)(r := planet') \<rparr>)
      | (Inr u, planet') \<Rightarrow> move_planets_loop_fp ar rs (s\<lparr> fheap := (fheap s)(r := planet') \<rparr>))"

definition move_planets_fp ::
  "'f arith \<Rightarrow> 'f FSolarSystem \<Rightarrow> (py_error + unit) \<times> 'f FSolarSystem" where
  "move_planets_fp ar s = move_planets_loop_fp ar (fplanets s) s"

definition distance_from_sun_fp ::
  "'f arith \<Rightarrow> 'f FPlanet \<Rightarrow> 'f FSun option \<Rightarrow> py_error + 'f" where
  "distance_from_sun_fp ar planet sun_opt =
     (case sun_opt of
        None \<Rightarrow> Inl AttributeError
      | Some sun \<Rightarrow>
          new_distance_fp ar (fsub ar (fplanet_x_pos planet) (fsun_x_pos sun))
                             (fsub ar (fplanet_y_pos planet) (fsun_y_pos sun)))"

definition report_line_fp ::
  "'f arith \<Rightarrow> 'f FSun option \<Rightarrow> 'f FPlanet \<Rightarrow> py_error + string" where
  "report_line_fp ar sun_opt planet =
     (case distance_from_sun_fp ar planet sun_opt of
        Inl e \<Rightarrow> Inl e
      | Inr d \<Rightarrow>
          Inr (fplanet_name planet @ '': x='' @ fmt ar (fplanet_x_pos planet)
               @ '', y='' @ fmt ar (fplanet_y_pos planet)
               @ '', distance='' @ fmt ar d))"

fun print_planets_fp ::
  "'f arith \<Rightarrow> 'f FSolarSystem \<Rightarrow> ref list \<Rightarrow> string list
     \<Rightarrow> (py_error + unit) \<times> string list" where
  "print_planets_fp ar s [] out = (Inr (), out)"
| "print_planets_fp ar s (r # rs) out =
     (case report_line_fp ar (fthe_sun s) (fheap s r) of
        Inl e \<Rightarrow> (Inl e, out)
      | Inr line \<Rightarrow> print_planets_fp ar s rs (out @ [line]))"

fun run_loop_fp ::
  "'f arith \<Rightarrow> nat \<Rightarrow> 'f FSolarSystem \<Rightarrow> string list
     \<Rightarrow> (py_error + unit) \<times> 'f FSolarSystem \<times> string list" where
  "run_loop_fp ar 0 s out = (Inr (), s, out)"
| "run_loop_fp ar (Suc n) s out =
     (case move_planets_fp ar s of
        (Inl e, s') \<Rightarrow> (Inl e, s', out)
      | (Inr u, s') \<Rightarrow>
          (case print_planets_fp ar s' (fplanets s') out of
             (Inl e, out') \<Rightarrow> (Inl e, s', out')
           | (Inr u', out') \<Rightarrow> run_loop_fp ar n s' out'))"

definition run_fp ::
  "'f arith \<Rightarrow> 'f FSimulation \<Rightarrow> string list
     \<Rightarrow> (py_error + unit) \<times> 'f FSimulation \<times> string list" where
  "run_fp ar sim out =
     (case run_loop_fp ar (nat (fiterations sim)) (fsolar_system sim) out of
        (res, s', out') \<Rightarrow> (res, sim\<lparr> fsolar_system := s' \<rparr>, out'))"

subsection \<open>Exact arithmetic\<close>

text \<open>The arithmetic of the first model: the reals, where no power or root raises.\<close>

definition exact :: "real arith" where
  "exact = \<lparr> lit_zero = 0, lit_dt = dt, lit_G = G, fadd = (+), fsub = (-), fmul = (*), fdiv = (/),
             is_zero = (\<lambda>x. x = 0),
             fsqrt = (\<lambda>x. if x < 0 then Inl ValueError else Inr (sqrt x)),
             fpow = (\<lambda>x n. Inr (x ^ n)), fmt = fmt_2f \<rparr>"

subsection \<open>Binary64 arithmetic\<close>

text \<open>
  A float of the interpreter is an IEEE 754 binary64 value: a finite value with a sign bit
  and a magnitude (so that there are two zeros), an infinity with a sign, or NaN. An
  operation returns the exact result rounded to the nearest binary64 value, a tie going to
  the even significand; a magnitude that rounds to \<open>2 ^ 1024\<close> or more is an overflow.
\<close>

datatype f64 = Finite bool real | Infinity bool | NaN

definition round64 :: "real \<Rightarrow> real" where
  "round64 m =
     (let e = (if m < 1 / 2 ^ 1022 then - 1074 else \<lfloor>log 2 m\<rfloor> - 52)
      in of_int (round_half_even (m / 2 powi e)) * 2 powi e)"

definition pack :: "bool \<Rightarrow> real \<Rightarrow> f64" where
  "pack sign m = (if 2 ^ 1024 \<le> round64 m then Infinity sign else Finite sign (round64 m))"

fun f64_neg :: "f64 \<Rightarrow> f64" where
  "f64_neg (Finite s m) = Finite (\<not> s) m"
| "f64_neg (Infinity s) = Infinity (\<not> s)"
| "f64_neg NaN = NaN"

fun f64_val :: "bool \<Rightarrow> real \<Rightarrow> real" where
  "f64_val s m = (if s then - m else m)"

fun f64_add :: "f64 \<Rightarrow> f64 \<Rightarrow> f64" where
  "f64_add NaN y = NaN"
| "f64_add x NaN = NaN"
| "f64_add (Infinity s) (Infinity t) = (if s = t then Infinity s else NaN)"
| "f64_add (Infinity s) (Finite t b) = Infinity s"
| "f64_add (Finite s a) (Infinity t) = Infinity t"
| "f64_add (Finite s a) (Finite t b) =
     (let x = f64_val s a + f64_val t b
      in if x = 0 then Finite (s \<and> t) 0 else pack (x < 0) \<bar>x\<bar>)"

definition f64_sub :: "f64 \<Rightarrow> f64 \<Rightarrow> f64" where
  "f64_sub x y = f64_add x (f64_neg y)"

fun f64_mul :: "f64 \<Rightarrow> f64 \<Rightarrow> f64" where
  "f64_mul NaN y = NaN"
| "f64_mul x NaN = NaN"
| "f64_mul (Infinity s) (Infinity t) = Infinity (s \<noteq> t)"
| "f64_mul (Infinity s) (Finite t b) = (if b = 0 then NaN else Infinity (s \<noteq> t))"
| "f64_mul (Finite s a) (Infinity t) = (if a = 0 then NaN else Infinity (s \<noteq> t))"
| "f64_mul (Finite s a) (Finite t b) = pack (s \<noteq> t) (a * b)"

text \<open>The quotient; the interpreter has raised before for a divisor that is a zero.\<close>

fun f64_div :: "f64 \<Rightarrow> f64 \<Rightarrow> f64" where
  "f64_div NaN y = NaN"
| "f64_div x NaN = NaN"
| "f64_div (Infinity s) (Infinity t) = NaN"
| "f64_div (Infinity s) (Finite t b) = Infinity (s \<noteq> t)"
| "f64_div (Finite s a) (Infinity t) = Finite (s \<noteq> t) 0"
| "f64_div (Finite s a) (Finite t b) = pack (s \<noteq> t) (a / b)"

fun f64_is_zero :: "f64 \<Rightarrow> bool" where
  "f64_is_zero (Finite s m) = (m = 0)"
| "f64_is_zero x = False"

text \<open>\<open>math.sqrt\<close> raises for a negative argument; the root of a zero is that zero.\<close>

fun f64_sqrt :: "f64 \<Rightarrow> py_error + f64" where
  "f64_sqrt NaN = Inr NaN"
| "f64_sqrt (Infinity s) = (if s then Inl ValueError else Inr (Infinity False))"
| "f64_sqrt (Finite s m) =
     (if s \<and> m \<noteq> 0 then Inl ValueError else Inr (Finite s (round64 (sqrt m))))"

text \<open>
  \<open>x ** n\<close> for an integer \<open>n\<close>: the power of the C library, taken as the rounded exact
  power; the interpreter raises \<open>OverflowError\<close> where a finite argument overflows.
\<close>

fun f64_pow :: "f64 \<Rightarrow> nat \<Rightarrow> py_error + f64" where
  "f64_pow NaN n = Inr (if n = 0 then Finite False 1 else NaN)"
| "f64_pow (Infinity s) n = Inr (if n = 0 then Finite False 1 else Infinity (s \<and> odd n))"
| "f64_pow (Finite s m) n =
     (if 2 ^ 1024 \<le> round64 (m ^ n) then Inl OverflowError
      else Inr (Finite (s \<and> odd n) (round64 (m ^ n))))"

text \<open>The format \<open>.2f\<close>: the exact value of the float rounded to two decimals.\<close>

fun f64_fmt :: "f64 \<Rightarrow> string" where
  "f64_fmt NaN = ''nan''"
| "f64_fmt (Infinity s) = (if s then ''-inf'' else ''inf'')"
| "f64_fmt (Finite s m) =
     (let k = nat (round_half_even (m * 100))
      in (if s then ''-'' else []) @ string_of_nat (k div 100) @ ''.''
           @ [digit (k div 10), digit k])"

text \<open>The literals \<open>0.001\<close> and \<open>6.67430e-11\<close> are the binary64 values nearest to them.\<close>

definition binary64 :: "f64 arith" where
  "binary64 = \<lparr> lit_zero = Finite False 0,
                lit_dt = Finite False (1152921504606847 / 2 ^ 60),
                lit_G = Finite False (1290997375656627 / 2 ^ 84),
                fadd = f64_add, fsub = f64_sub, fmul = f64_mul, fdiv = f64_div,
                is_zero = f64_is_zero, fsqrt = f64_sqrt, fpow = f64_pow, fmt = f64_fmt \<rparr>"

subsection \<open>Observations and concrete inputs of the second model\<close>

definition tick_fp :: "'f arith \<Rightarrow> 'f FSolarSystem \<Rightarrow> 'f FSolarSystem" where
  "tick_fp ar s = snd (move_planets_fp ar s)"

text \<open>
  Whether a float is finite, as \<open>math.isfinite\<close> tells it.
\<close>

fun f64_finite :: "f64 \<Rightarrow> bool" where
  "f64_finite (Finite s m) = True"
| "f64_finite x = False"

text \<open>
  Binary64 inputs. \<open>pos64 x\<close> and \<open>neg64 x\<close> are the floats \<open>x\<close> and \<open>- x\<close> for a magnitude
  \<open>x\<close> that is a binary64 value. The sun and the first planet of the main block (5000, 5.0,
  200.0 and 47.5 are binary64 values), a planet at rest on the sun, and a planet on the sun
  whose velocity is the smallest positive float, \<open>5e-324\<close>.
\<close>

definition pos64 :: "real \<Rightarrow> f64" where
  "pos64 x = Finite False x"

definition neg64 :: "real \<Rightarrow> f64" where
  "neg64 x = Finite True x"

definition sol64 :: "f64 FSun" where
  "sol64 = FSun_init binary64 ''SOL'' (pos64 5000) (pos64 10000000) (pos64 5800)"

definition earth64 :: "f64 FPlanet" where
  "earth64 = FPlanet_init binary64 ''EARTH'' (pos64 47.5) (pos64 1) (pos64 25)
               (pos64 5) (pos64 200) ''green''"

definition rest64 :: "f64 FPlanet" where
  "rest64 = FPlanet_init binary64 ''REST'' (pos64 0) (pos64 1) (pos64 1)
              (pos64 0) (pos64 0) ''grey''"

definition drift64 :: "f64 FPlanet" where
  "drift64 = FPlanet_init binary64 ''DRIFT'' (pos64 (1 / 2 ^ 1074)) (pos64 1) (pos64 1)
               (pos64 0) (pos64 0) ''grey''"

definition collision_system64 :: "f64 FSolarSystem" where
  "collision_system64 =
     \<lparr> fthe_sun = Some sol64, fplanets = [0, 1], fheap = (\<lambda>r. earth64)(0 := rest64) \<rparr>"

definition collision_simulation64 :: "f64 FSimulation" where
  "collision_simulation64 =
     \<lparr> fsolar_system = collision_system64, fwidth = pos64 500, fheight = pos64 500,
       fiterations = 3 \<rparr>"

definition drift_system64 :: "f64 FSolarSystem" where
  "drift_system64 = \<lparr> fthe_sun = Some sol64, fplanets = [0], fheap = (\<lambda>r. drift64) \<rparr>"

text \<open>
  A sun without mass, and two planets A and B that fall towards the x-axis with the
  velocities -4000 and -8000: A along the line \<open>x = xa\<close> from the height \<open>ya\<close>, B along the
  line \<open>x = 6\<close> from the height \<open>yb\<close>. With \<open>xa = 3\<close> the planets pass beside the sun; with
  \<open>xa = 0\<close> planet A falls onto it.
\<close>

definition void_sun64 :: "f64 FSun" where
  "void_sun64 = FSun_init binary64 ''VOID'' (pos64 0) (pos64 1) (pos64 1)"

definition faller64 :: "string \<Rightarrow> real \<Rightarrow> real \<Rightarrow> real \<Rightarrow> f64 FPlanet" where
  "faller64 name x y v =
     FPlanet_init binary64 name (neg64 v) (pos64 1) (pos64 1) (pos64 x) (pos64 y) ''red''"

definition falling64 :: "real \<Rightarrow> real \<Rightarrow> real \<Rightarrow> f64 FSolarSystem" where
  "falling64 xa ya yb =
     \<lparr> fthe_sun = Some void_sun64, fplanets = [0, 1],
       fheap = (\<lambda>r. rest64)(0 := faller64 ''A'' xa ya 4000, 1 := faller64 ''B'' 6 yb 8000) \<rparr>"

definition fall_simulation64 :: "f64 FSimulation" where
  "fall_simulation64 =
     \<lparr> fsolar_system = falling64 3 8 16, fwidth = pos64 500, fheight = pos64 500,
       fiterations = 2 \<rparr>"

definition crash_simulation64 :: "f64 FSimulation" where
  "crash_simulation64 =
     \<lparr> fsolar_system = falling64 0 8 16, fwidth = pos64 500, fheight = pos64 500,
       fiterations = 3 \<rparr>"

text \<open>
  In exact arithmetic: the sun of the main block and a planet that leaves it with the
  velocity of the first planet.
\<close>

definition exact_sol :: "real FSun" where
  "exact_sol = FSun_init exact ''SOL'' 5000 10000000 5800"

definition leaver :: "real FPlanet" where
  "leaver = FPlanet_init exact ''LEAVER'' 47.5 1 1 0 0 ''grey''"

section \<open>The loop body\<close>

lemmas accessor_defs =
  Sun_get_mass_def Sun_get_x_pos_def Sun_get_y_pos_def get_mass_def get_x_pos_def
  get_y_pos_def get_x_vel_def get_y_vel_def set_x_vel_def set_y_vel_def move_to_def

lemmas example_defs =
  sol_def earth_def mars_def rest_def main_heap_def main_system_def sunless_system_def
  collision_system_def Sun_init_def Planet_init_def SolarSystem_init_def add_sun_def
  add_planet_def

lemmas more_defs =
  pythagoras_def small_system_def small_simulation_def collision_simulation_def
  twice_system_def heavy_heap_def heavy_system_def twin_system_def main_simulation_def
  other_simulation_def Simulation_init_def

text \<open>
  What one run of the loop body does to the planet it is run for: without a sun it moves
  the planet and raises; with a sun it raises exactly when the moved planet is on the sun,
  and otherwise sets both velocities. It never reads the planet's mass, and never writes
  its name, mass, radius or colour.
\<close>

lemma move_planet_None:
  "move_planet None p =
     (Inl AttributeError,
      move_to p (get_x_pos p + dt * get_x_vel p) (get_y_pos p + dt * get_y_vel p))"
  by (simp add: move_planet_def)

lemma move_planet_raises_iff:
  "fst (move_planet (Some sun) p) = Inl ZeroDivisionError \<longleftrightarrow>
     get_x_pos p + dt * get_x_vel p = Sun_get_x_pos sun \<and>
     get_y_pos p + dt * get_y_vel p = Sun_get_y_pos sun"
  by (auto simp: move_planet_def Let_def accessor_defs)

lemma move_planet_Some_cases:
  "fst (move_planet (Some sun) p) = Inl ZeroDivisionError \<or>
   fst (move_planet (Some sun) p) = Inr ()"
  by (simp add: move_planet_def Let_def)

lemma move_planet_frame:
  "planet_name (snd (move_planet so p)) = planet_name p"
  "planet_mass (snd (move_planet so p)) = planet_mass p"
  "planet_radius (snd (move_planet so p)) = planet_radius p"
  "planet_color (snd (move_planet so p)) = planet_color p"
  by (simp_all add: move_planet_def Let_def accessor_defs split: option.split)

lemma move_planet_kinematics:
  "kinematics p = kinematics q \<Longrightarrow>
   fst (move_planet so p) = fst (move_planet so q) \<and>
   kinematics (snd (move_planet so p)) = kinematics (snd (move_planet so q))"
  by (simp add: move_planet_def Let_def accessor_defs kinematics_def split: option.split)

lemma planet_ok_Some:
  "planet_ok (Some sun) p \<longleftrightarrow>
     \<not> (get_x_pos p + dt * get_x_vel p = Sun_get_x_pos sun \<and>
        get_y_pos p + dt * get_y_vel p = Sun_get_y_pos sun)"
  using move_planet_raises_iff [of sun p] move_planet_Some_cases [of sun p]
  by (auto simp: planet_ok_def)

lemma planet_after_Some:
  "planet_ok (Some sun) p \<Longrightarrow>
   planet_after (Some sun) p =
     (let x' = get_x_pos p + dt * get_x_vel p;
          y' = get_y_pos p + dt * get_y_vel p;
          dx = Sun_get_x_pos sun - x';
          dy = Sun_get_y_pos sun - y';
          d = sqrt (dx ^ 2 + dy ^ 2)
      in p\<lparr> planet_x_pos := x', planet_y_pos := y',
            planet_x_vel := get_x_vel p + dt * (G * Sun_get_mass sun * dx / d ^ 3),
            planet_y_vel := get_y_vel p + dt * (G * Sun_get_mass sun * dy / d ^ 3) \<rparr>)"
  by (auto simp: planet_ok_def planet_after_def move_planet_def Let_def accessor_defs
      split: if_splits)

section \<open>The loop over the planets\<close>

text \<open>The loop writes to the store only, and only at the listed references.\<close>

lemma loop_the_sun [simp]: "the_sun (snd (move_planets_loop rs s)) = the_sun s"
  by (induction rs arbitrary: s) (auto split: prod.split sum.split)

lemma loop_planets [simp]: "planets (snd (move_planets_loop rs s)) = planets s"
  by (induction rs arbitrary: s) (auto split: prod.split sum.split)

lemma loop_unlisted: "r \<notin> set rs \<Longrightarrow> heap (snd (move_planets_loop rs s)) r = heap s r"
  by (induction rs arbitrary: s) (auto split: prod.split sum.split)

lemma loop_frame:
  "planet_name (heap (snd (move_planets_loop rs s)) r) = planet_name (heap s r) \<and>
   planet_mass (heap (snd (move_planets_loop rs s)) r) = planet_mass (heap s r) \<and>
   planet_radius (heap (snd (move_planets_loop rs s)) r) = planet_radius (heap s r) \<and>
   planet_color (heap (snd (move_planets_loop rs s)) r) = planet_color (heap s r)"
proof (induction rs arbitrary: s)
  case Nil
  show ?case by simp
next
  case (Cons a rs)
  obtain res p' where mp: "move_planet (the_sun s) (heap s a) = (res, p')"
    by (cases "move_planet (the_sun s) (heap s a)")
  have fr: "planet_name p' = planet_name (heap s a)" "planet_mass p' = planet_mass (heap s a)"
    "planet_radius p' = planet_radius (heap s a)" "planet_color p' = planet_color (heap s a)"
    using move_planet_frame [of "the_sun s" "heap s a"] by (simp_all add: mp)
  show ?case
  proof (cases res)
    case (Inl e)
    then show ?thesis using mp fr by simp
  next
    case (Inr u)
    then show ?thesis using mp fr Cons.IH [of "s\<lparr>heap := (heap s)(a := p')\<rparr>"] by simp
  qed
qed

text \<open>
  The loop returns normally exactly when every update returns, where a planet listed \<open>c\<close>
  times is updated \<open>c\<close> times in a row; the store then holds, for each planet, the result
  of its \<open>c\<close> updates. So the result depends on how often each planet is listed, not on
  the order.
\<close>

lemma loop_Cons_ok:
  "planet_ok (the_sun s) (heap s a) \<Longrightarrow>
   move_planets_loop (a # rs) s =
     move_planets_loop rs (s\<lparr>heap := (heap s)(a := planet_after (the_sun s) (heap s a))\<rparr>)"
  by (auto simp: planet_ok_def planet_after_def split: prod.split sum.split)

lemma loop_Cons_fail:
  "\<not> planet_ok (the_sun s) (heap s a) \<Longrightarrow> fst (move_planets_loop (a # rs) s) \<noteq> Inr ()"
  by (auto simp: planet_ok_def split: prod.split sum.split)

lemma loop_count_ok:
  "(fst (move_planets_loop rs s) = Inr ()) =
     (\<forall>r k. k < count_list rs r \<longrightarrow> planet_ok (the_sun s) ((planet_after (the_sun s) ^^ k) (heap s r)))"
proof (induction rs arbitrary: s)
  case Nil
  show ?case by simp
next
  case (Cons a rs)
  let ?so = "the_sun s"
  let ?s1 = "s\<lparr>heap := (heap s)(a := planet_after ?so (heap s a))\<rparr>"
  show ?case
  proof (cases "planet_ok ?so (heap s a)")
    case False
    have "\<not> (\<forall>r k. k < count_list (a # rs) r \<longrightarrow> planet_ok ?so ((planet_after ?so ^^ k) (heap s r)))"
    proof
      assume A: "\<forall>r k. k < count_list (a # rs) r \<longrightarrow> planet_ok ?so ((planet_after ?so ^^ k) (heap s r))"
      have "0 < count_list (a # rs) a" by simp
      then have "planet_ok ?so ((planet_after ?so ^^ 0) (heap s a))" using A by blast
      then show False using False by simp
    qed
    moreover have "fst (move_planets_loop (a # rs) s) \<noteq> Inr ()"
      using False by (rule loop_Cons_fail)
    ultimately show ?thesis by simp
  next
    case True
    have "(\<forall>r k. k < count_list rs r \<longrightarrow> planet_ok ?so ((planet_after ?so ^^ k) (heap ?s1 r))) =
          (\<forall>r k. k < count_list (a # rs) r \<longrightarrow> planet_ok ?so ((planet_after ?so ^^ k) (heap s r)))"
      (is "?L = ?R")
    proof
      assume L: ?L
      show ?R
      proof (intro allI impI)
        fix r k assume k: "k < count_list (a # rs) r"
        show "planet_ok ?so ((planet_after ?so ^^ k) (heap s r))"
        proof (cases "r = a")
          case False
          then show ?thesis using L k by (auto dest: spec [of _ r])
        next
          case ra: True
          show ?thesis
          proof (cases k)
            case 0
            then show ?thesis using True ra by simp
          next
            case (Suc j)
            then have "j < count_list rs a" using k ra by simp
            then have "planet_ok ?so ((planet_after ?so ^^ j) (heap ?s1 a))" using L by blast
            then show ?thesis using Suc ra by (simp add: funpow_swap1)
          qed
        qed
      qed
    next
      assume R: ?R
      show ?L
      proof (intro allI impI)
        fix r k assume k: "k < count_list rs r"
        show "planet_ok ?so ((planet_after ?so ^^ k) (heap ?s1 r))"
        proof (cases "r = a")
          case False
          then show ?thesis using R k by (auto dest: spec [of _ r])
        next
          case ra: True
          have "Suc k < count_list (a # rs) a" using k ra by simp
          then have "planet_ok ?so ((planet_after ?so ^^ Suc k) (heap s a))" using R by blast
          then show ?thesis using ra by (simp add: funpow_swap1)
        qed
      qed
    qed
    then show ?thesis using Cons.IH [of ?s1] loop_Cons_ok [OF True, of rs] by simp
  qed
qed

lemma loop_count_heap:
  "fst (move_planets_loop rs s) = Inr () \<Longrightarrow>
     heap (snd (move_planets_loop rs s)) r = (planet_after (the_sun s) ^^ count_list rs r) (heap s r)"
proof (induction rs arbitrary: s)
  case Nil
  show ?case by simp
next
  case (Cons a rs)
  let ?so = "the_sun s"
  let ?s1 = "s\<lparr>heap := (heap s)(a := planet_after ?so (heap s a))\<rparr>"
  have ok: "planet_ok ?so (heap s a)" using Cons.prems loop_Cons_fail [of s a rs] by blast
  have eq: "move_planets_loop (a # rs) s = move_planets_loop rs ?s1"
    by (rule loop_Cons_ok [OF ok])
  have "heap (snd (move_planets_loop rs ?s1)) r = (planet_after ?so ^^ count_list rs r) (heap ?s1 r)"
    using Cons.IH [of ?s1] Cons.prems eq by simp
  then show ?case using eq by (simp add: funpow_swap1)
qed

lemma loop_permute:
  assumes "mset ps = mset rs" and "fst (move_planets_loop rs s) = Inr ()"
  shows "fst (move_planets_loop ps s) = Inr () \<and>
         heap (snd (move_planets_loop ps s)) = heap (snd (move_planets_loop rs s))"
proof -
  have c: "count_list ps = count_list rs"
    using assms(1) by (metis count_mset ext)
  have ok: "fst (move_planets_loop ps s) = Inr ()"
    using assms(2) by (simp add: loop_count_ok c)
  show ?thesis using ok assms(2) by (auto simp: loop_count_heap c)
qed

lemma count_list_distinct: "distinct rs \<Longrightarrow> r \<in> set rs \<Longrightarrow> count_list rs r = 1"
  by (induction rs) auto

lemma loop_distinct:
  assumes "distinct rs" and "\<forall>r\<in>set rs. planet_ok (the_sun s) (heap s r)"
  shows "fst (move_planets_loop rs s) = Inr () \<and>
         (\<forall>r\<in>set rs. heap (snd (move_planets_loop rs s)) r = planet_after (the_sun s) (heap s r))"
proof -
  have ok: "fst (move_planets_loop rs s) = Inr ()"
    unfolding loop_count_ok
  proof (intro allI impI)
    fix r k assume k: "k < count_list rs r"
    then have "r \<in> set rs" by (metis count_list_0_iff not_less_zero)
    then show "planet_ok (the_sun s) ((planet_after (the_sun s) ^^ k) (heap s r))"
      using k assms count_list_distinct [of rs r] by simp
  qed
  show ?thesis using ok assms(1) by (simp add: loop_count_heap count_list_distinct)
qed

lemma loop_planets_update:
  "move_planets_loop rs (s\<lparr> planets := ps \<rparr>) =
     (fst (move_planets_loop rs s), (snd (move_planets_loop rs s))\<lparr> planets := ps \<rparr>)"
proof (induction rs arbitrary: s)
  case Nil
  show ?case by simp
next
  case (Cons a rs)
  obtain res p' where mp: "move_planet (the_sun s) (heap s a) = (res, p')"
    by (cases "move_planet (the_sun s) (heap s a)")
  let ?t = "s\<lparr> heap := (heap s)(a := p') \<rparr>"
  have upd: "s\<lparr> planets := ps, heap := (heap s)(a := p') \<rparr> = ?t\<lparr> planets := ps \<rparr>"
    by simp
  show ?case
  proof (cases res)
    case (Inl e)
    then show ?thesis using mp by simp
  next
    case (Inr u)
    then show ?thesis using mp Cons.IH [of ?t] by (simp add: upd)
  qed
qed

text \<open>
  Two runs of the loop, on stores that are related planet by planet by a relation that the
  loop body preserves, end the same way and leave related stores.
\<close>

lemma loop_related:
  assumes R: "\<And>p q. R p q \<Longrightarrow> fst (move_planet so p) = fst (move_planet so q) \<and>
                 R (snd (move_planet so p)) (snd (move_planet so q))"
    and "the_sun s1 = so" and "the_sun s2 = so"
    and "\<forall>r\<in>A. R (heap s1 r) (heap s2 r)" and "set rs \<subseteq> A"
  shows "fst (move_planets_loop rs s1) = fst (move_planets_loop rs s2) \<and>
         (\<forall>r\<in>A. R (heap (snd (move_planets_loop rs s1)) r) (heap (snd (move_planets_loop rs s2)) r))"
  using assms(2-)
proof (induction rs arbitrary: s1 s2)
  case Nil
  then show ?case by simp
next
  case (Cons a rs)
  obtain res1 p1 where m1: "move_planet so (heap s1 a) = (res1, p1)"
    by (cases "move_planet so (heap s1 a)")
  obtain res2 p2 where m2: "move_planet so (heap s2 a) = (res2, p2)"
    by (cases "move_planet so (heap s2 a)")
  have a: "a \<in> A" using Cons.prems by simp
  then have "R (heap s1 a) (heap s2 a)" using Cons.prems by blast
  from R [OF this] have res: "res1 = res2" and p: "R p1 p2" by (simp_all add: m1 m2)
  let ?t1 = "s1\<lparr>heap := (heap s1)(a := p1)\<rparr>"
  let ?t2 = "s2\<lparr>heap := (heap s2)(a := p2)\<rparr>"
  have rel: "\<forall>r\<in>A. R (heap ?t1 r) (heap ?t2 r)" using Cons.prems p by simp
  show ?case
  proof (cases res1)
    case (Inl e)
    have "move_planet so (heap s1 a) = (Inl e, p1)" "move_planet so (heap s2 a) = (Inl e, p2)"
      using m1 m2 res Inl by simp_all
    then show ?thesis using rel Cons.prems by simp
  next
    case (Inr u)
    have m: "move_planet so (heap s1 a) = (Inr u, p1)" "move_planet so (heap s2 a) = (Inr u, p2)"
      using m1 m2 res Inr by simp_all
    have "fst (move_planets_loop rs ?t1) = fst (move_planets_loop rs ?t2) \<and>
      (\<forall>r\<in>A. R (heap (snd (move_planets_loop rs ?t1)) r) (heap (snd (move_planets_loop rs ?t2)) r))"
      using Cons.prems rel by (intro Cons.IH) simp_all
    then show ?thesis using m Cons.prems by simp
  qed
qed

lemma move_planets_related:
  assumes R: "\<And>p q. R p q \<Longrightarrow> fst (move_planet (the_sun s1) p) = fst (move_planet (the_sun s1) q) \<and>
                 R (snd (move_planet (the_sun s1) p)) (snd (move_planet (the_sun s1) q))"
    and "the_sun s1 = the_sun s2" and "planets s1 = planets s2"
    and "\<forall>r\<in>A. R (heap s1 r) (heap s2 r)" and "set (planets s1) \<subseteq> A"
  shows "fst (move_planets s1) = fst (move_planets s2) \<and>
         (\<forall>r\<in>A. R (heap (snd (move_planets s1)) r) (heap (snd (move_planets s2)) r))"
  unfolding move_planets_def assms(3) [symmetric]
  by (rule loop_related [where so = "the_sun s1"]) (use assms in simp_all)


lemma loop_distinct_success:
  assumes "distinct rs" and "fst (move_planets_loop rs s) = Inr ()" and "r \<in> set rs"
  shows "planet_ok (the_sun s) (heap s r) \<and>
         heap (snd (move_planets_loop rs s)) r = planet_after (the_sun s) (heap s r)"
proof -
  have c: "count_list rs r = 1" using assms(1,3) by (rule count_list_distinct)
  have "\<forall>r k. k < count_list rs r \<longrightarrow>
          planet_ok (the_sun s) ((planet_after (the_sun s) ^^ k) (heap s r))"
    using assms(2) by (simp only: loop_count_ok)
  then have "planet_ok (the_sun s) ((planet_after (the_sun s) ^^ 0) (heap s r))"
    using c by (metis zero_less_one)
  then show ?thesis using loop_count_heap [OF assms(2), of r] c by simp
qed

lemma move_planet_position:
  "get_x_pos (snd (move_planet so p)) = get_x_pos p + dt * get_x_vel p \<and>
   get_y_pos (snd (move_planet so p)) = get_y_pos p + dt * get_y_vel p"
  by (simp add: move_planet_def Let_def accessor_defs split: option.split)

lemma loop_head:
  "a \<notin> set rs \<Longrightarrow>
   heap (snd (move_planets_loop (a # rs) s)) a = snd (move_planet (the_sun s) (heap s a))"
  by (cases "move_planet (the_sun s) (heap s a)")
     (auto simp: loop_unlisted split: sum.split)

lemma move_planets_ok_distinct:
  assumes "the_sun s = Some sun" and "distinct (planets s)"
    and "\<forall>r\<in>set (planets s).
           \<not> (get_x_pos (heap s r) + dt * get_x_vel (heap s r) = Sun_get_x_pos sun \<and>
              get_y_pos (heap s r) + dt * get_y_vel (heap s r) = Sun_get_y_pos sun)"
  shows "fst (move_planets s) = Inr ()"
  using loop_distinct [OF assms(2), of s] assms(1,3)
  by (simp add: move_planets_def planet_ok_Some)

lemma planet_after_funpow_kinematics:
  "kinematics p = kinematics q \<Longrightarrow>
   kinematics ((planet_after so ^^ k) p) = kinematics ((planet_after so ^^ k) q)"
proof (induction k)
  case 0
  then show ?case by simp
next
  case (Suc k)
  then have "kinematics ((planet_after so ^^ k) p) = kinematics ((planet_after so ^^ k) q)"
    by simp
  from move_planet_kinematics [OF this, of so]
  have "kinematics (planet_after so ((planet_after so ^^ k) p)) =
        kinematics (planet_after so ((planet_after so ^^ k) q))"
    unfolding planet_after_def by (rule conjunct2)
  then show ?case by simp
qed

section \<open>The loops of the simulation\<close>

text \<open>
  The printing loop raises only without a sun; with a sun it appends one line for each
  listed planet. A tick of \<open>run\<close> is a call of \<open>move_planets\<close> followed by the printing loop.
\<close>

lemma move_planets_the_sun [simp]: "the_sun (snd (move_planets s)) = the_sun s"
  by (simp add: move_planets_def)

lemma move_planets_planets [simp]: "planets (snd (move_planets s)) = planets s"
  by (simp add: move_planets_def)

lemma print_planets_fst:
  "fst (print_planets s rs out) = (if the_sun s = None \<and> rs \<noteq> [] then Inl AttributeError else Inr ())"
  by (induction rs arbitrary: out)
     (auto simp: report_line_def distance_from_sun_def Let_def split: option.split)


lemma print_planets_agree:
  "the_sun s1 = the_sun s2 \<Longrightarrow> \<forall>r\<in>set rs. heap s1 r = heap s2 r \<Longrightarrow>
   print_planets s1 rs out = print_planets s2 rs out"
  by (induction rs arbitrary: out) (auto split: sum.split)

lemma run_loop_Suc_ok:
  assumes "fst (move_planets s) = Inr ()" and "the_sun s = Some sun"
  shows "run_loop (Suc n) s out =
    run_loop n (snd (move_planets s))
      (snd (print_planets (snd (move_planets s)) (planets s) out))"
proof -
  obtain s' where m: "move_planets s = (Inr (), s')"
    using assms(1) by (cases "move_planets s") auto
  have sun: "the_sun s' = Some sun" and pl: "planets s' = planets s"
    using move_planets_the_sun [of s] move_planets_planets [of s] assms(2) by (simp_all add: m)
  have "fst (print_planets s' (planets s) out) = Inr ()"
    by (simp add: print_planets_fst sun)
  then obtain out' where p: "print_planets s' (planets s) out = (Inr (), out')"
    by (cases "print_planets s' (planets s) out") auto
  show ?thesis by (simp add: m pl p)
qed

lemma tick_planets: "planets ((tick ^^ k) s) = planets s"
  by (induction k) (simp_all add: tick_def)

text \<open>Two runs of the outer loop, related as above.\<close>

lemma run_loop_kinematics:
  assumes "the_sun s1 = the_sun s2" and "planets s1 = planets s2"
    and "\<forall>r. kinematics (heap s1 r) = kinematics (heap s2 r)"
  shows "fst (run_loop n s1 out1) = fst (run_loop n s2 out2) \<and>
         (\<forall>r. kinematics (heap (fst (snd (run_loop n s1 out1))) r) =
              kinematics (heap (fst (snd (run_loop n s2 out2))) r))"
  using assms
proof (induction n arbitrary: s1 s2 out1 out2)
  case 0
  then show ?case by simp
next
  case (Suc n)
  obtain res1 t1 where m1: "move_planets s1 = (res1, t1)" by (cases "move_planets s1")
  obtain res2 t2 where m2: "move_planets s2 = (res2, t2)" by (cases "move_planets s2")
  have "fst (move_planets s1) = fst (move_planets s2) \<and>
        (\<forall>r\<in>UNIV. kinematics (heap (snd (move_planets s1)) r) = kinematics (heap (snd (move_planets s2)) r))"
  proof (rule move_planets_related [where R = "\<lambda>p q. kinematics p = kinematics q"])
    fix p q assume "kinematics p = kinematics q"
    then show "fst (move_planet (the_sun s1) p) = fst (move_planet (the_sun s1) q) \<and>
       kinematics (snd (move_planet (the_sun s1) p)) = kinematics (snd (move_planet (the_sun s1) q))"
      by (rule move_planet_kinematics)
  qed (use Suc.prems in simp_all)
  then have res: "res2 = res1" and kin: "\<forall>r. kinematics (heap t1 r) = kinematics (heap t2 r)"
    by (simp_all add: m1 m2)
  have sun: "the_sun t1 = the_sun s1" "the_sun t2 = the_sun s2"
    and pl: "planets t1 = planets s1" "planets t2 = planets s2"
    using move_planets_the_sun [of s1] move_planets_the_sun [of s2]
      move_planets_planets [of s1] move_planets_planets [of s2] by (simp_all add: m1 m2)
  show ?case
  proof (cases res1)
    case (Inl e)
    then show ?thesis using m1 m2 res kin by simp
  next
    case (Inr u)
    obtain q1 o1 where p1: "print_planets t1 (planets t1) out1 = (q1, o1)"
      by (cases "print_planets t1 (planets t1) out1")
    obtain q2 o2 where p2: "print_planets t2 (planets t2) out2 = (q2, o2)"
      by (cases "print_planets t2 (planets t2) out2")
    have "q1 = (if the_sun t1 = None \<and> planets t1 \<noteq> [] then Inl AttributeError else Inr ())"
      using print_planets_fst [of t1 "planets t1" out1] by (simp add: p1)
    moreover have "q2 = (if the_sun t2 = None \<and> planets t2 \<noteq> [] then Inl AttributeError else Inr ())"
      using print_planets_fst [of t2 "planets t2" out2] by (simp add: p2)
    ultimately have q: "q2 = q1"
      using sun pl Suc.prems(1,2) by simp
    show ?thesis
    proof (cases q1)
      case (Inl e)
      then show ?thesis using m1 m2 res Inr p1 p2 q kin by simp
    next
      case Inr2: (Inr u')
      have "fst (run_loop n t1 o1) = fst (run_loop n t2 o2) \<and>
         (\<forall>r. kinematics (heap (fst (snd (run_loop n t1 o1))) r) =
              kinematics (heap (fst (snd (run_loop n t2 o2))) r))"
        using sun pl Suc.prems(1,2) kin by (intro Suc.IH) simp_all
      then show ?thesis using m1 m2 res Inr p1 p2 q Inr2 by simp
    qed
  qed
qed

lemma run_loop_agree:
  assumes "the_sun s1 = the_sun s2" and "planets s1 = planets s2"
    and "\<forall>r\<in>set (planets s1). heap s1 r = heap s2 r"
  shows "fst (run_loop n s1 out) = fst (run_loop n s2 out) \<and>
         snd (snd (run_loop n s1 out)) = snd (snd (run_loop n s2 out)) \<and>
         (\<forall>r\<in>set (planets s1). heap (fst (snd (run_loop n s1 out))) r =
              heap (fst (snd (run_loop n s2 out))) r)"
  using assms
proof (induction n arbitrary: s1 s2 out)
  case 0
  then show ?case by simp
next
  case (Suc n)
  obtain res1 t1 where m1: "move_planets s1 = (res1, t1)" by (cases "move_planets s1")
  obtain res2 t2 where m2: "move_planets s2 = (res2, t2)" by (cases "move_planets s2")
  have "fst (move_planets s1) = fst (move_planets s2) \<and>
        (\<forall>r\<in>set (planets s1). heap (snd (move_planets s1)) r = heap (snd (move_planets s2)) r)"
    by (rule move_planets_related [where R = "(=)"]) (use Suc.prems in simp_all)
  then have res: "res2 = res1" and hp: "\<forall>r\<in>set (planets s1). heap t1 r = heap t2 r"
    by (simp_all add: m1 m2)
  have sun: "the_sun t1 = the_sun s1" "the_sun t2 = the_sun s2"
    and pl: "planets t1 = planets s1" "planets t2 = planets s2"
    using move_planets_the_sun [of s1] move_planets_the_sun [of s2]
      move_planets_planets [of s1] move_planets_planets [of s2] by (simp_all add: m1 m2)
  show ?case
  proof (cases res1)
    case (Inl e)
    then show ?thesis using m1 m2 res hp by simp
  next
    case (Inr u)
    have pe: "print_planets t2 (planets t2) out = print_planets t1 (planets t1) out"
      using print_planets_agree [of t1 t2 "planets t1" out] sun pl hp Suc.prems(1,2) by simp
    obtain q1 o1 where p1: "print_planets t1 (planets t1) out = (q1, o1)"
      by (cases "print_planets t1 (planets t1) out")
    show ?thesis
    proof (cases q1)
      case (Inl e)
      then show ?thesis using m1 m2 res Inr p1 pe hp by simp
    next
      case Inr2: (Inr u')
      have "fst (run_loop n t1 o1) = fst (run_loop n t2 o1) \<and>
         snd (snd (run_loop n t1 o1)) = snd (snd (run_loop n t2 o1)) \<and>
         (\<forall>r\<in>set (planets t1). heap (fst (snd (run_loop n t1 o1))) r =
              heap (fst (snd (run_loop n t2 o1))) r)"
        using sun pl Suc.prems(1,2) hp by (intro Suc.IH) simp_all
      then show ?thesis using m1 m2 res Inr p1 pe Inr2 pl by simp
    qed
  qed
qed

text \<open>
  A run of the outer loop that returns normally: the state it reaches, the ticks it has
  made and the lines it has printed.
\<close>

lemma print_planets_length:
  "fst (print_planets s rs out) = Inr () \<Longrightarrow>
   length (snd (print_planets s rs out)) = length out + length rs"
  by (induction rs arbitrary: out) (auto split: sum.splits)

lemma run_loop_Suc_success:
  assumes "fst (run_loop (Suc n) s out) = Inr ()"
  shows "fst (move_planets s) = Inr () \<and>
         fst (print_planets (tick s) (planets s) out) = Inr () \<and>
         run_loop (Suc n) s out =
           run_loop n (tick s) (snd (print_planets (tick s) (planets s) out))"
proof -
  obtain res s' where m: "move_planets s = (res, s')" by (cases "move_planets s")
  have pl: "planets s' = planets s" using move_planets_planets [of s] by (simp add: m)
  obtain q out' where p: "print_planets s' (planets s) out = (q, out')"
    by (cases "print_planets s' (planets s) out")
  have "res = Inr ()" using assms by (cases res) (simp_all add: m)
  moreover have "q = Inr ()" using assms calculation by (cases q) (simp_all add: m pl p)
  ultimately show ?thesis by (simp add: m pl p tick_def)
qed

lemma run_loop_state:
  assumes "fst (run_loop n s out) = Inr ()"
  shows "fst (snd (run_loop n s out)) = (tick ^^ n) s \<and>
         (\<forall>k<n. fst (move_planets ((tick ^^ k) s)) = Inr ()) \<and>
         length (snd (snd (run_loop n s out))) = length out + n * length (planets s)"
  using assms
proof (induction n arbitrary: s out)
  case 0
  then show ?case by simp
next
  case (Suc n)
  let ?out' = "snd (print_planets (tick s) (planets s) out)"
  have ok: "fst (move_planets s) = Inr ()"
    and pr: "fst (print_planets (tick s) (planets s) out) = Inr ()"
    and eq: "run_loop (Suc n) s out = run_loop n (tick s) ?out'"
    using run_loop_Suc_success [OF Suc.prems] by simp_all
  have pl: "planets (tick s) = planets s" by (simp add: tick_def)
  have ih: "fst (snd (run_loop n (tick s) ?out')) = (tick ^^ n) (tick s) \<and>
         (\<forall>k<n. fst (move_planets ((tick ^^ k) (tick s))) = Inr ()) \<and>
         length (snd (snd (run_loop n (tick s) ?out'))) = length ?out' + n * length (planets (tick s))"
    using Suc.prems eq by (intro Suc.IH) simp
  have c1: "fst (snd (run_loop (Suc n) s out)) = (tick ^^ Suc n) s"
    using ih eq by (simp add: funpow_swap1)
  have c2: "\<forall>k<Suc n. fst (move_planets ((tick ^^ k) s)) = Inr ()"
  proof (intro allI impI)
    fix k assume kn: "k < Suc n"
    show "fst (move_planets ((tick ^^ k) s)) = Inr ()"
    proof (cases k)
      case 0
      then show ?thesis using ok by simp
    next
      case (Suc j)
      then have "j < n" using kn by simp
      then have "fst (move_planets ((tick ^^ j) (tick s))) = Inr ()" using ih by blast
      then show ?thesis using Suc by (simp add: funpow_swap1)
    qed
  qed
  have c3: "length (snd (snd (run_loop (Suc n) s out))) = length out + Suc n * length (planets s)"
    using ih eq pl print_planets_length [OF pr] by simp
  show ?case using c1 c2 c3 by blast
qed



lemma tick_heap:
  "fst (move_planets s) = Inr () \<Longrightarrow>
   heap (tick s) r = (planet_after (the_sun s) ^^ count_list (planets s) r) (heap s r)"
  by (simp add: tick_def move_planets_def loop_count_heap)

lemma ticks_same_kinematics:
  assumes "count_list (planets s) a = count_list (planets s) b"
    and "kinematics (heap s a) = kinematics (heap s b)"
    and "\<forall>k<n. fst (move_planets ((tick ^^ k) s)) = Inr ()"
  shows "kinematics (heap ((tick ^^ n) s) a) = kinematics (heap ((tick ^^ n) s) b)"
  using assms(3)
proof (induction n)
  case 0
  show ?case using assms(2) by simp
next
  case (Suc n)
  let ?t = "(tick ^^ n) s"
  have ih: "kinematics (heap ?t a) = kinematics (heap ?t b)" using Suc by simp
  have ok: "fst (move_planets ?t) = Inr ()" using Suc.prems by simp
  have c: "count_list (planets ?t) a = count_list (planets ?t) b"
    using assms(1) by (simp add: tick_planets)
  show ?case
    using planet_after_funpow_kinematics [OF ih, where so = "the_sun ?t"
        and k = "count_list (planets ?t) a"]
    by (simp add: tick_heap [OF ok] c)
qed

section \<open>Properties of one call of \<open>move_planets\<close>\<close>

subsection \<open>The update of a planet\<close>

text \<open>
  Claim C1, as far as it holds. Let the solar system have a sun of mass \<open>M\<close> at the origin and
  list no planet twice, and let a call of \<open>move_planets\<close> return normally. Then every listed
  planet has been updated like this: its new position is its old position plus 0.001 times
  its old velocity; and with \<open>dx\<close>, \<open>dy\<close> the displacement from the new position to the sun
  and \<open>d\<close> the distance between them, which is not zero, its velocity has grown by
  0.001 times \<open>(G * M * dx / d ^ 3, G * M * dy / d ^ 3)\<close>.
\<close>

theorem move_planets_single_step:
  assumes "the_sun s = Some sun"
    and "Sun_get_x_pos sun = 0" and "Sun_get_y_pos sun = 0"
    and "distinct (planets s)"
    and "fst (move_planets s) = Inr ()"
  shows "\<forall>r\<in>set (planets s).
       (let x' = get_x_pos (heap s r) + 0.001 * get_x_vel (heap s r);
            y' = get_y_pos (heap s r) + 0.001 * get_y_vel (heap s r);
            dx = 0 - x';
            dy = 0 - y';
            d = sqrt (dx ^ 2 + dy ^ 2);
            p' = heap (snd (move_planets s)) r
        in get_x_pos p' = x' \<and> get_y_pos p' = y' \<and> d \<noteq> 0 \<and>
           get_x_vel p' = get_x_vel (heap s r) + 0.001 * (G * Sun_get_mass sun * dx / d ^ 3) \<and>
           get_y_vel p' = get_y_vel (heap s r) + 0.001 * (G * Sun_get_mass sun * dy / d ^ 3))"
proof
  fix r assume r: "r \<in> set (planets s)"
  have ok: "planet_ok (Some sun) (heap s r)"
    and hp: "heap (snd (move_planets s)) r = planet_after (Some sun) (heap s r)"
    using loop_distinct_success [OF assms(4) _ r, of s] assms(1,5)
    by (simp_all add: move_planets_def)
  have nz: "\<not> (get_x_pos (heap s r) + 0.001 * get_x_vel (heap s r) = 0 \<and>
              get_y_pos (heap s r) + 0.001 * get_y_vel (heap s r) = 0)"
    using ok assms(2,3) by (simp add: planet_ok_Some dt_def)
  have "heap (snd (move_planets s)) r =
      (let x' = get_x_pos (heap s r) + dt * get_x_vel (heap s r);
          y' = get_y_pos (heap s r) + dt * get_y_vel (heap s r);
          dx = Sun_get_x_pos sun - x';
          dy = Sun_get_y_pos sun - y';
          d = sqrt (dx ^ 2 + dy ^ 2)
      in (heap s r)\<lparr> planet_x_pos := x', planet_y_pos := y',
            planet_x_vel := get_x_vel (heap s r) + dt * (G * Sun_get_mass sun * dx / d ^ 3),
            planet_y_vel := get_y_vel (heap s r) + dt * (G * Sun_get_mass sun * dy / d ^ 3) \<rparr>)"
    using hp planet_after_Some [OF ok] by simp
  then show "let x' = get_x_pos (heap s r) + 0.001 * get_x_vel (heap s r);
            y' = get_y_pos (heap s r) + 0.001 * get_y_vel (heap s r);
            dx = 0 - x';
            dy = 0 - y';
            d = sqrt (dx ^ 2 + dy ^ 2);
            p' = heap (snd (move_planets s)) r
        in get_x_pos p' = x' \<and> get_y_pos p' = y' \<and> d \<noteq> 0 \<and>
           get_x_vel p' = get_x_vel (heap s r) + 0.001 * (G * Sun_get_mass sun * dx / d ^ 3) \<and>
           get_y_vel p' = get_y_vel (heap s r) + 0.001 * (G * Sun_get_mass sun * dy / d ^ 3)"
    using assms(2,3) nz
    by (simp add: Let_def dt_def get_x_pos_def get_y_pos_def get_x_vel_def get_y_vel_def)
qed

text \<open>
  Witness for C1: the solar system of the main block. Its call returns normally, and the
  planet at (5.0, 200.0) with velocity (0, 47.5) moves to (5.0, 200.0475).
\<close>

theorem move_planets_single_step_witness:
  "the_sun main_system = Some sol \<and> Sun_get_x_pos sol = 0 \<and> Sun_get_y_pos sol = 0 \<and>
   distinct (planets main_system) \<and>
   fst (move_planets main_system) = Inr () \<and>
   get_x_pos (heap main_system 0) = 5 \<and> get_y_pos (heap main_system 0) = 200 \<and>
   get_x_vel (heap main_system 0) = 0 \<and> get_y_vel (heap main_system 0) = 47.5 \<and>
   get_x_pos (heap (snd (move_planets main_system)) 0) = 5 \<and>
   get_y_pos (heap (snd (move_planets main_system)) 0) = 200.0475 \<and>
   get_x_vel (heap (snd (move_planets main_system)) 0) =
     0 + 0.001 * (G * 5000 * (0 - 5) / sqrt ((0 - 5) ^ 2 + (0 - 200.0475) ^ 2) ^ 3) \<and>
   get_y_vel (heap (snd (move_planets main_system)) 0) =
     47.5 + 0.001 * (G * 5000 * (0 - 200.0475) / sqrt ((0 - 5) ^ 2 + (0 - 200.0475) ^ 2) ^ 3)"
proof -
  have h1: "the_sun main_system = Some sol" by (simp add: example_defs)
  have h2: "Sun_get_x_pos sol = 0" "Sun_get_y_pos sol = 0"
    by (simp_all add: example_defs accessor_defs)
  have h3: "distinct (planets main_system)" by (simp add: example_defs)
  have h4: "fst (move_planets main_system) = Inr ()"
    by (rule move_planets_ok_distinct [where sun = sol])
       (simp_all add: example_defs accessor_defs dt_def)
  have m: "Sun_get_mass sol = 5000" by (simp add: example_defs accessor_defs)
  have e: "get_x_pos (heap main_system 0) = 5" "get_y_pos (heap main_system 0) = 200"
    "get_x_vel (heap main_system 0) = 0" "get_y_vel (heap main_system 0) = 47.5"
    by (simp_all add: example_defs accessor_defs)
  have in0: "0 \<in> set (planets main_system)" by (simp add: example_defs)
  from bspec [OF move_planets_single_step [OF h1 h2 h3 h4] in0] have
    "get_x_pos (heap (snd (move_planets main_system)) 0) = 5 + 0.001 * 0 \<and>
     get_y_pos (heap (snd (move_planets main_system)) 0) = 200 + 0.001 * 47.5 \<and>
     sqrt ((0 - (5 + 0.001 * 0)) ^ 2 + (0 - (200 + 0.001 * 47.5)) ^ 2) \<noteq> 0 \<and>
     get_x_vel (heap (snd (move_planets main_system)) 0) =
       0 + 0.001 * (G * 5000 * (0 - (5 + 0.001 * 0)) /
          sqrt ((0 - (5 + 0.001 * 0)) ^ 2 + (0 - (200 + 0.001 * 47.5)) ^ 2) ^ 3) \<and>
     get_y_vel (heap (snd (move_planets main_system)) 0) =
       47.5 + 0.001 * (G * 5000 * (0 - (200 + 0.001 * 47.5)) /
          sqrt ((0 - (5 + 0.001 * 0)) ^ 2 + (0 - (200 + 0.001 * 47.5)) ^ 2) ^ 3)"
    unfolding Let_def e m .
  moreover have "(5::real) + 0.001 * 0 = 5" "(200::real) + 0.001 * 47.5 = 200.0475"
    by simp_all
  ultimately show ?thesis using h1 h2 h3 h4 e by (simp only: simp_thms)
qed

text \<open>
  C1 as it is stated, for every solar system with a sun at the origin, does not hold, on two
  accounts. In \<open>collision_system\<close> the first planet rests on the sun, the call raises
  \<open>ZeroDivisionError\<close> there and never reaches the second planet, which stays at (5.0, 200.0)
  instead of moving to (5.0, 200.0475). In \<open>twice_system\<close> the same planet is listed twice and
  is updated twice, so that it ends beyond y = 200.09 instead of at y = 200.0475.
\<close>

theorem move_planets_single_step_fails:
  "the_sun collision_system = Some sol \<and> Sun_get_x_pos sol = 0 \<and> Sun_get_y_pos sol = 0 \<and>
   planets collision_system = [0, 1] \<and>
   get_y_pos (heap collision_system 1) + 0.001 * get_y_vel (heap collision_system 1) = 200.0475 \<and>
   get_y_pos (heap (snd (move_planets collision_system)) 1) = 200 \<and>
   the_sun twice_system = Some sol \<and> planets twice_system = [0, 0] \<and>
   get_y_pos (heap twice_system 0) + 0.001 * get_y_vel (heap twice_system 0) = 200.0475 \<and>
   200.09 < get_y_pos (heap (snd (move_planets twice_system)) 0)"
proof -
  have c1: "the_sun collision_system = Some sol" "Sun_get_x_pos sol = 0" "Sun_get_y_pos sol = 0"
    "planets collision_system = [0, 1]"
    "get_y_pos (heap collision_system 1) + 0.001 * get_y_vel (heap collision_system 1) = 200.0475"
    by (simp_all add: example_defs accessor_defs)
  have c2: "get_y_pos (heap (snd (move_planets collision_system)) 1) = 200"
    by (simp add: move_planets_def move_planet_def Let_def accessor_defs example_defs dt_def)
  have t1: "the_sun twice_system = Some sol" "planets twice_system = [0, 0]"
    "get_y_pos (heap twice_system 0) + 0.001 * get_y_vel (heap twice_system 0) = 200.0475"
    and h0: "heap twice_system 0 = earth"
    by (simp_all add: example_defs more_defs accessor_defs)
  have ok: "planet_ok (Some sol) earth"
    by (simp add: planet_ok_Some example_defs accessor_defs dt_def)
  let ?e1 = "planet_after (Some sol) earth"
  let ?s1 = "twice_system\<lparr> heap := (heap twice_system)(0 := ?e1) \<rparr>"
  let ?d = "sqrt ((0 - 5) ^ 2 + (0 - 200.0475) ^ 2) :: real"
  have "move_planets_loop (0 # [0]) twice_system = move_planets_loop [0] ?s1"
    using loop_Cons_ok [of twice_system 0 "[0]"] ok by (simp add: t1 h0)
  moreover have "heap (snd (move_planets_loop (0 # []) ?s1)) 0 = snd (move_planet (Some sol) ?e1)"
    using loop_head [of 0 "[]" ?s1] by (simp add: t1)
  ultimately have y: "get_y_pos (heap (snd (move_planets twice_system)) 0) =
      get_y_pos ?e1 + dt * get_y_vel ?e1"
    using move_planet_position [of "Some sol" ?e1] by (simp add: move_planets_def t1)
  have e1: "get_y_pos ?e1 = 200.0475"
    "get_y_vel ?e1 = 47.5 + dt * (G * 5000 * (0 - 200.0475) / ?d ^ 3)"
    unfolding planet_after_Some [OF ok] Let_def
    by (simp_all add: example_defs accessor_defs dt_def)
  have "1 \<le> ?d" by (rule real_sqrt_ge_one) simp
  then have d3: "1 \<le> ?d ^ 3" by (rule one_le_power)
  have "- 1 \<le> G * 5000 * (0 - 200.0475) / ?d ^ 3"
  proof -
    have "\<bar>G * 5000 * (0 - 200.0475) / ?d ^ 3\<bar> = \<bar>G * 5000 * (0 - 200.0475)\<bar> / ?d ^ 3"
      using d3 by simp
    also have "\<dots> \<le> \<bar>G * 5000 * (0 - 200.0475)\<bar> / 1"
      by (rule frac_le [OF _ _ _ d3]) simp_all
    also have "\<dots> \<le> 1" by (simp add: G_def)
    finally show ?thesis by linarith
  qed
  then have "47 \<le> get_y_vel ?e1" by (simp add: e1 dt_def)
  then have c3: "200.09 < get_y_pos (heap (snd (move_planets twice_system)) 0)"
    by (simp add: y e1(1) dt_def)
  show ?thesis using c1 c2 t1 c3 by simp
qed

subsection \<open>No sun\<close>

text \<open>
  Claim C2, as far as it holds. \<open>move_planets\<close> has no check of its own for a missing sun.
  With no sun set and no planet listed, the call returns normally and changes nothing. With
  no sun set and a planet listed, the call raises \<open>AttributeError\<close> while it updates the first
  listed planet: that planet has been moved by 0.001 times its velocity by then, and nothing
  else has changed.
\<close>

theorem move_planets_without_sun:
  assumes "the_sun s = None"
  shows "move_planets s =
    (case planets s of
       [] \<Rightarrow> (Inr (), s)
     | r # rs \<Rightarrow>
         (Inl AttributeError,
          s\<lparr> heap := (heap s)(r := move_to (heap s r)
                (get_x_pos (heap s r) + 0.001 * get_x_vel (heap s r))
                (get_y_pos (heap s r) + 0.001 * get_y_vel (heap s r))) \<rparr>))"
  using assms by (cases "planets s") (simp_all add: move_planets_def move_planet_None dt_def)

text \<open>
  Witness for C2: a solar system without a sun that lists the first planet of the main
  block. The call raises, the listed planet is at (5.0, 200.0475) afterwards, and the
  unlisted one is untouched.
\<close>

theorem move_planets_without_sun_witness:
  "the_sun sunless_system = None \<and>
   fst (move_planets sunless_system) = Inl AttributeError \<and>
   heap (snd (move_planets sunless_system)) 0 = move_to earth 5 200.0475 \<and>
   heap (snd (move_planets sunless_system)) 1 = mars"
proof -
  have h: "the_sun sunless_system = None"
    by (simp add: example_defs)
  show ?thesis
    using h move_planets_without_sun [OF h]
    by (simp add: example_defs accessor_defs)
qed

text \<open>
  C2 as it is stated does not hold: without a sun, the call on \<open>sunless_system\<close> changes the
  position of the listed planet from (5.0, 200.0) to (5.0, 200.0475) before it raises; and
  on a newly constructed solar system, with no sun and no planet, the call does not raise.
\<close>

theorem move_planets_without_sun_moves_planet:
  "the_sun sunless_system = None \<and>
   fst (move_planets sunless_system) = Inl AttributeError \<and>
   get_y_pos (heap sunless_system 0) = 200 \<and>
   get_y_pos (heap (snd (move_planets sunless_system)) 0) = 200.0475 \<and>
   the_sun (SolarSystem_init main_heap) = None \<and>
   fst (move_planets (SolarSystem_init main_heap)) = Inr ()"
  by (simp add: example_defs accessor_defs move_planets_def move_planet_def dt_def)

subsection \<open>A planet on the sun\<close>



subsection \<open>What a call leaves alone\<close>

text \<open>
  Claim C9. A call of \<open>move_planets\<close>, whether it returns or raises, leaves the sun as it is
  (its position and mass with it) and the list of planets as it is, and leaves the name,
  mass, radius and colour of every planet as they are: only positions and velocities of
  planets change.
\<close>

theorem move_planets_frame:
  "the_sun (snd (move_planets s)) = the_sun s \<and>
   planets (snd (move_planets s)) = planets s \<and>
   (\<forall>r. planet_name (heap (snd (move_planets s)) r) = planet_name (heap s r) \<and>
        planet_mass (heap (snd (move_planets s)) r) = planet_mass (heap s r) \<and>
        planet_radius (heap (snd (move_planets s)) r) = planet_radius (heap s r) \<and>
        planet_color (heap (snd (move_planets s)) r) = planet_color (heap s r))"
  using loop_frame [of "planets s" s] by (simp add: move_planets_def)

subsection \<open>The order of the planets\<close>

text \<open>
  Claim C7, as far as it holds. Let a call of \<open>move_planets\<close> return normally. Then with the
  planets listed in any other order (the same references, each as often as before) the call
  returns normally too, and leaves every planet exactly as the call in the original order
  does.
\<close>

theorem move_planets_permutation:
  assumes "mset ps = mset (planets s)" and "fst (move_planets s) = Inr ()"
  shows "fst (move_planets (s\<lparr> planets := ps \<rparr>)) = Inr () \<and>
         heap (snd (move_planets (s\<lparr> planets := ps \<rparr>))) = heap (snd (move_planets s))"
proof -
  have ok: "fst (move_planets_loop (planets s) s) = Inr ()"
    using assms(2) by (simp add: move_planets_def)
  have "fst (move_planets_loop ps s) = Inr () \<and>
        heap (snd (move_planets_loop ps s)) = heap (snd (move_planets_loop (planets s) s))"
    by (rule loop_permute [OF assms(1) ok])
  then show ?thesis by (simp add: move_planets_def loop_planets_update)
qed

text \<open>Witness for C7: the two planets of the main block, swapped.\<close>

theorem move_planets_permutation_witness:
  "mset [1, 0] = mset (planets main_system) \<and> fst (move_planets main_system) = Inr () \<and>
   fst (move_planets (main_system\<lparr> planets := [1, 0] \<rparr>)) = Inr () \<and>
   heap (snd (move_planets (main_system\<lparr> planets := [1, 0] \<rparr>))) =
     heap (snd (move_planets main_system))"
proof -
  have h1: "mset [1, 0] = mset (planets main_system)"
    by (simp add: example_defs)
  have h2: "fst (move_planets main_system) = Inr ()"
    by (rule move_planets_ok_distinct [where sun = sol])
       (simp_all add: example_defs accessor_defs dt_def)
  show ?thesis using move_planets_permutation [OF h1 h2] h1 h2 by simp
qed

text \<open>
  C7 as it is stated, for every solar system, does not hold: when the call raises, the
  planets listed before the failing one have been updated and those after it have not. In
  \<open>collision_system\<close> the planet resting on the sun is listed first, and the other planet
  keeps its y-coordinate 200.0; with the two swapped, that planet is updated first and ends
  at 200.0475.
\<close>

theorem move_planets_order_matters_on_failure:
  "mset [1, 0] = mset (planets collision_system) \<and>
   fst (move_planets collision_system) = Inl ZeroDivisionError \<and>
   get_y_pos (heap (snd (move_planets collision_system)) 1) = 200 \<and>
   get_y_pos (heap (snd (move_planets (collision_system\<lparr> planets := [1, 0] \<rparr>))) 1) = 200.0475"
proof -
  have p: "planets collision_system = [0, 1]" and sun: "the_sun collision_system = Some sol"
    and h1: "heap collision_system 1 = earth"
    by (simp_all add: example_defs)
  have a: "fst (move_planets collision_system) = Inl ZeroDivisionError"
    by (simp add: move_planets_def move_planet_def Let_def accessor_defs example_defs dt_def)
  have b: "heap (snd (move_planets collision_system)) 1 = earth"
    by (simp add: move_planets_def move_planet_def Let_def accessor_defs example_defs dt_def)
  have "heap (snd (move_planets_loop (1 # [0]) (collision_system\<lparr> planets := [1, 0] \<rparr>))) 1 =
      snd (move_planet (Some sol) earth)"
    using loop_head [of 1 "[0]" "collision_system\<lparr> planets := [1, 0] \<rparr>"] sun h1 by simp
  then have c: "get_y_pos (heap (snd (move_planets (collision_system\<lparr> planets := [1, 0] \<rparr>))) 1) =
      get_y_pos earth + dt * get_y_vel earth"
    using move_planet_position [of "Some sol" earth] by (simp add: move_planets_def)
  have e: "get_y_pos earth = 200" "get_y_vel earth = 47.5"
    by (simp_all add: example_defs accessor_defs)
  show ?thesis using p a b c by (simp add: e dt_def)
qed

section \<open>Construction\<close>

text \<open>
  Claim C4, as far as it holds. The constructors of \<open>Sun\<close> and \<open>Planet\<close> check nothing: every
  construction yields an object, and the object's mass is the mass that was passed.
\<close>

theorem constructors_store_any_mass:
  "Sun_get_mass (Sun_init name mass radius temperature) = mass \<and>
   get_mass (Planet_init pname initial_velocity pmass pradius x_pos y_pos color) = pmass"
  by (simp add: Sun_init_def Planet_init_def Sun_get_mass_def get_mass_def)

text \<open>
  C4 as it is stated does not hold: a sun of mass -5000 and a planet of mass 0 are
  constructed, and keep those masses.
\<close>

theorem nonpositive_mass_accepted:
  "Sun_get_mass (Sun_init ''SOL'' (- 5000) 10000000 5800) = - 5000 \<and>
   get_mass (Planet_init ''EARTH'' 47.5 0 25 5.0 200.0 ''green'') = 0"
  by (simp add: Sun_init_def Planet_init_def Sun_get_mass_def get_mass_def)

section \<open>Properties of the simulation\<close>

subsection \<open>The mass of a planet\<close>

lemma two_runs_kinematics:
  assumes "the_sun s1 = the_sun s2" and "planets s1 = planets s2"
    and "\<forall>r. kinematics (heap s1 r) = kinematics (heap s2 r)"
  shows "fst (move_planets s1) = fst (move_planets s2) \<and>
    (\<forall>r. get_x_vel (heap (snd (move_planets s1)) r) - get_x_vel (heap s1 r) =
           get_x_vel (heap (snd (move_planets s2)) r) - get_x_vel (heap s2 r) \<and>
         get_y_vel (heap (snd (move_planets s1)) r) - get_y_vel (heap s1 r) =
           get_y_vel (heap (snd (move_planets s2)) r) - get_y_vel (heap s2 r)) \<and>
    (\<forall>n. fst (run_loop n s1 out1) = fst (run_loop n s2 out2) \<and>
         (\<forall>r. kinematics (heap (fst (snd (run_loop n s1 out1))) r) =
              kinematics (heap (fst (snd (run_loop n s2 out2))) r)))"
proof -
  have one: "fst (move_planets s1) = fst (move_planets s2) \<and>
        (\<forall>r\<in>UNIV. kinematics (heap (snd (move_planets s1)) r) =
                    kinematics (heap (snd (move_planets s2)) r))"
  proof (rule move_planets_related [where R = "\<lambda>p q. kinematics p = kinematics q"])
    fix p q assume "kinematics p = kinematics q"
    then show "fst (move_planet (the_sun s1) p) = fst (move_planet (the_sun s1) q) \<and>
       kinematics (snd (move_planet (the_sun s1) p)) =
       kinematics (snd (move_planet (the_sun s1) q))"
      by (rule move_planet_kinematics)
  qed (use assms in simp_all)
  have vel: "\<And>p q. kinematics p = kinematics q \<Longrightarrow>
      get_x_vel p = get_x_vel q \<and> get_y_vel p = get_y_vel q"
    by (simp add: kinematics_def)
  have "\<forall>r. get_x_vel (heap (snd (move_planets s1)) r) =
              get_x_vel (heap (snd (move_planets s2)) r) \<and>
            get_y_vel (heap (snd (move_planets s1)) r) =
              get_y_vel (heap (snd (move_planets s2)) r)"
    using one vel by blast
  moreover have "\<forall>r. get_x_vel (heap s1 r) = get_x_vel (heap s2 r) \<and>
                     get_y_vel (heap s1 r) = get_y_vel (heap s2 r)"
    using assms(3) vel by blast
  ultimately have inc:
    "\<forall>r. get_x_vel (heap (snd (move_planets s1)) r) - get_x_vel (heap s1 r) =
           get_x_vel (heap (snd (move_planets s2)) r) - get_x_vel (heap s2 r) \<and>
         get_y_vel (heap (snd (move_planets s1)) r) - get_y_vel (heap s1 r) =
           get_y_vel (heap (snd (move_planets s2)) r) - get_y_vel (heap s2 r)"
    by simp
  show ?thesis
    using one inc run_loop_kinematics [OF assms, of _ out1 out2] by blast
qed

text \<open>
  Claim C5, in two readings.

  Two runs: let two solar systems have the same sun and the same list of planets, and let
  each planet have the same position and velocity in both; masses (and names, radii,
  colours) may differ in any way. Then a call of \<open>move_planets\<close> ends the same way in both
  and adds the same increment, 0.001 times the acceleration, to every velocity; and after
  any number \<open>n\<close> of ticks of the simulation's loop the two runs have ended the same way and
  every planet has the same position and velocity in both.

  One run: let two planets of one solar system be listed equally often and have the same
  position and velocity. Then after any number \<open>n\<close> of ticks that returned normally the two
  have the same position and velocity.
\<close>

theorem mass_independence:
  "(the_sun s1 = the_sun s2 \<and> planets s1 = planets s2 \<and>
    (\<forall>r. kinematics (heap s1 r) = kinematics (heap s2 r)) \<longrightarrow>
    fst (move_planets s1) = fst (move_planets s2) \<and>
    (\<forall>r. get_x_vel (heap (snd (move_planets s1)) r) - get_x_vel (heap s1 r) =
           get_x_vel (heap (snd (move_planets s2)) r) - get_x_vel (heap s2 r) \<and>
         get_y_vel (heap (snd (move_planets s1)) r) - get_y_vel (heap s1 r) =
           get_y_vel (heap (snd (move_planets s2)) r) - get_y_vel (heap s2 r)) \<and>
    (\<forall>n. fst (run_loop n s1 out1) = fst (run_loop n s2 out2) \<and>
         (\<forall>r. kinematics (heap (fst (snd (run_loop n s1 out1))) r) =
              kinematics (heap (fst (snd (run_loop n s2 out2))) r)))) \<and>
   (count_list (planets s) a = count_list (planets s) b \<and>
    kinematics (heap s a) = kinematics (heap s b) \<and>
    fst (run_loop n s out) = Inr () \<longrightarrow>
    kinematics (heap (fst (snd (run_loop n s out))) a) =
      kinematics (heap (fst (snd (run_loop n s out))) b))"
proof (intro conjI impI)
  assume h: "count_list (planets s) a = count_list (planets s) b \<and>
    kinematics (heap s a) = kinematics (heap s b) \<and> fst (run_loop n s out) = Inr ()"
  then have ok: "fst (run_loop n s out) = Inr ()" by simp
  show "kinematics (heap (fst (snd (run_loop n s out))) a) =
      kinematics (heap (fst (snd (run_loop n s out))) b)"
    using run_loop_state [OF ok] ticks_same_kinematics [of s a b n] h by simp
next
  assume "the_sun s1 = the_sun s2 \<and> planets s1 = planets s2 \<and>
    (\<forall>r. kinematics (heap s1 r) = kinematics (heap s2 r))"
  then have a: "the_sun s1 = the_sun s2" "planets s1 = planets s2"
    "\<forall>r. kinematics (heap s1 r) = kinematics (heap s2 r)" by simp_all
  show "fst (move_planets s1) = fst (move_planets s2)"
    using two_runs_kinematics [OF a] by blast
  show "\<forall>r. get_x_vel (heap (snd (move_planets s1)) r) - get_x_vel (heap s1 r) =
           get_x_vel (heap (snd (move_planets s2)) r) - get_x_vel (heap s2 r) \<and>
         get_y_vel (heap (snd (move_planets s1)) r) - get_y_vel (heap s1 r) =
           get_y_vel (heap (snd (move_planets s2)) r) - get_y_vel (heap s2 r)"
    using two_runs_kinematics [OF a] by blast
  show "\<forall>n. fst (run_loop n s1 out1) = fst (run_loop n s2 out2) \<and>
         (\<forall>r. kinematics (heap (fst (snd (run_loop n s1 out1))) r) =
              kinematics (heap (fst (snd (run_loop n s2 out2))) r))"
    using two_runs_kinematics [OF a, of out1 out2] by blast
qed

text \<open>
  Witness for C5. Two runs: the solar system of the main block, and the same with planets
  of masses 1000 and 2000 instead of 1 and 0.1, compared after the 2000 ticks of the main
  block. One run: \<open>twin_system\<close> lists two planets of masses 1 and 1000 that start at the
  same place with the same velocity, compared after one tick.
\<close>

theorem mass_independence_witness:
  "the_sun main_system = the_sun heavy_system \<and> planets main_system = planets heavy_system \<and>
   (\<forall>r. kinematics (heap main_system r) = kinematics (heap heavy_system r)) \<and>
   get_mass (heap main_system 0) = 1 \<and> get_mass (heap heavy_system 0) = 1000 \<and>
   fst (run_loop 2000 main_system []) = fst (run_loop 2000 heavy_system []) \<and>
   kinematics (heap (fst (snd (run_loop 2000 main_system []))) 0) =
     kinematics (heap (fst (snd (run_loop 2000 heavy_system []))) 0) \<and>
   count_list (planets twin_system) 0 = count_list (planets twin_system) 1 \<and>
   kinematics (heap twin_system 0) = kinematics (heap twin_system 1) \<and>
   get_mass (heap twin_system 0) = 1 \<and> get_mass (heap twin_system 1) = 1000 \<and>
   fst (run_loop 1 twin_system []) = Inr () \<and>
   kinematics (heap (fst (snd (run_loop 1 twin_system []))) 0) =
     kinematics (heap (fst (snd (run_loop 1 twin_system []))) 1)"
proof -
  have h1: "the_sun main_system = the_sun heavy_system"
    and h2: "planets main_system = planets heavy_system"
    and h3: "\<forall>r. kinematics (heap main_system r) = kinematics (heap heavy_system r)"
    by (simp_all add: example_defs more_defs kinematics_def accessor_defs)
  have m: "get_mass (heap main_system 0) = 1" "get_mass (heap heavy_system 0) = 1000"
    "get_mass (heap twin_system 0) = 1" "get_mass (heap twin_system 1) = 1000"
    by (simp_all add: example_defs more_defs accessor_defs)
  have g1: "count_list (planets twin_system) 0 = count_list (planets twin_system) 1"
    and g2: "kinematics (heap twin_system 0) = kinematics (heap twin_system 1)"
    by (simp_all add: example_defs more_defs kinematics_def accessor_defs)
  have sun: "the_sun twin_system = Some sol" by (simp add: example_defs more_defs)
  have ok: "fst (move_planets twin_system) = Inr ()"
    by (rule move_planets_ok_distinct [where sun = sol])
       (simp_all add: example_defs more_defs accessor_defs dt_def)
  have "run_loop (Suc 0) twin_system [] =
      run_loop 0 (snd (move_planets twin_system))
        (snd (print_planets (snd (move_planets twin_system)) (planets twin_system) []))"
    by (rule run_loop_Suc_ok [OF ok sun])
  then have g3: "fst (run_loop 1 twin_system []) = Inr ()"
    by (simp only: One_nat_def run_loop.simps(1) fst_conv)
  show ?thesis
    using mass_independence [of main_system heavy_system "[]" "[]" twin_system 0 1 1 "[]"]
      h1 h2 h3 m g1 g2 g3 by blast
qed

subsection \<open>Determinism\<close>

text \<open>
  Claim C6. The result of \<open>run\<close> is a function of the sun, the list of planets, the listed
  planet objects and the iteration count, and of nothing else: let two simulations agree on
  these (they may differ in width and height and in every object that is not listed). Then
  the two runs end the same way, print the same lines, and leave every listed planet in the
  same state; and so it is after every number \<open>k\<close> of ticks, which gives the same sequence
  of positions and velocities for every planet.
\<close>

theorem run_deterministic:
  assumes "the_sun (solar_system sim1) = the_sun (solar_system sim2)"
    and "planets (solar_system sim1) = planets (solar_system sim2)"
    and "\<forall>r\<in>set (planets (solar_system sim1)).
           heap (solar_system sim1) r = heap (solar_system sim2) r"
    and "iterations sim1 = iterations sim2"
  shows "fst (run sim1 out) = fst (run sim2 out) \<and>
    snd (snd (run sim1 out)) = snd (snd (run sim2 out)) \<and>
    (\<forall>r\<in>set (planets (solar_system sim1)).
       heap (solar_system (fst (snd (run sim1 out)))) r =
       heap (solar_system (fst (snd (run sim2 out)))) r) \<and>
    (\<forall>k. \<forall>r\<in>set (planets (solar_system sim1)).
       heap (fst (snd (run_loop k (solar_system sim1) out))) r =
       heap (fst (snd (run_loop k (solar_system sim2) out))) r)"
proof -
  have r: "\<And>sim. run sim out =
      (fst (run_loop (nat (iterations sim)) (solar_system sim) out),
       sim\<lparr> solar_system :=
         fst (snd (run_loop (nat (iterations sim)) (solar_system sim) out)) \<rparr>,
       snd (snd (run_loop (nat (iterations sim)) (solar_system sim) out)))"
    by (simp add: run_def split: prod.split)
  show ?thesis
    using run_loop_agree [OF assms(1-3), of _ out] assms(4) by (simp add: r)
qed

text \<open>
  Witness for C6: the simulation of the main block, and one of another width and height
  whose store differs at the unlisted reference 2.
\<close>

theorem run_deterministic_witness:
  "the_sun (solar_system main_simulation) = the_sun (solar_system other_simulation) \<and>
   planets (solar_system main_simulation) = planets (solar_system other_simulation) \<and>
   planets (solar_system main_simulation) = [0, 1] \<and>
   heap (solar_system main_simulation) 0 = heap (solar_system other_simulation) 0 \<and>
   heap (solar_system main_simulation) 1 = heap (solar_system other_simulation) 1 \<and>
   iterations main_simulation = iterations other_simulation \<and>
   heap (solar_system main_simulation) 2 \<noteq> heap (solar_system other_simulation) 2 \<and>
   width main_simulation \<noteq> width other_simulation \<and>
   fst (run main_simulation []) = fst (run other_simulation []) \<and>
   snd (snd (run main_simulation [])) = snd (snd (run other_simulation [])) \<and>
   heap (solar_system (fst (snd (run main_simulation [])))) 0 =
     heap (solar_system (fst (snd (run other_simulation [])))) 0"
proof -
  have h1: "the_sun (solar_system main_simulation) = the_sun (solar_system other_simulation)"
    and h2: "planets (solar_system main_simulation) = planets (solar_system other_simulation)"
    and h3: "\<forall>r\<in>set (planets (solar_system main_simulation)).
      heap (solar_system main_simulation) r = heap (solar_system other_simulation) r"
    and h4: "iterations main_simulation = iterations other_simulation"
    by (simp_all add: example_defs more_defs)
  have d: "heap (solar_system main_simulation) 2 \<noteq> heap (solar_system other_simulation) 2"
    "width main_simulation \<noteq> width other_simulation"
    by (simp_all add: example_defs more_defs)
  have in0: "0 \<in> set (planets (solar_system main_simulation))"
    by (simp add: example_defs more_defs)
  have l: "planets (solar_system main_simulation) = [0, 1]"
    "heap (solar_system main_simulation) 0 = heap (solar_system other_simulation) 0"
    "heap (solar_system main_simulation) 1 = heap (solar_system other_simulation) 1"
    by (simp_all add: example_defs more_defs)
  show ?thesis
    using run_deterministic [OF h1 h2 h3 h4, of "[]"] h1 h2 l h4 d in0 by blast
qed

subsection \<open>Ticks and report lines\<close>





subsection \<open>A planet that starts on the sun\<close>

text \<open>
  Claim C10 is about a planet that starts at the position of the sun with a velocity that is
  not zero, and says that the position update takes it off the sun, so that the division
  does not raise. Whether \<open>x + 0.001 * v\<close> differs from \<open>x\<close> is a matter of floating-point
  rounding: for a small \<open>v\<close>, or a large \<open>x\<close>, the sum is \<open>x\<close> again, and the cube of a small
  distance is 0.0. The reals of this model do not round, so C10 is not stated here.
\<close>

end
